theory Spec2Isabelle
  imports Complex_Main
begin

section \<open>JavaScript strings\<close>

text \<open>
  A JavaScript string is a sequence of UTF-16 code units. The messages of the program are
  partly English, partly Lao, so a string is modelled as the list of its code units and
  an ASCII literal is written \<open>ascii ''...''\<close>.
\<close>

type_synonym jstring = "nat list"

definition ascii :: "string \<Rightarrow> jstring" where
  "ascii s = map of_char s"

text \<open>
  White space as \<open>String.prototype.trim\<close> and the regular-expression class \<open>\s\<close> see it
  (ECMAScript WhiteSpace and LineTerminator), and the class \<open>\w\<close>.
\<close>

definition is_ws :: "nat \<Rightarrow> bool" where
  "is_ws c \<longleftrightarrow>
     c = 0x9 \<or> c = 0xA \<or> c = 0xB \<or> c = 0xC \<or> c = 0xD \<or> c = 0x20 \<or> c = 0xA0 \<or>
     c = 0x1680 \<or> (0x2000 \<le> c \<and> c \<le> 0x200A) \<or> c = 0x2028 \<or> c = 0x2029 \<or>
     c = 0x202F \<or> c = 0x205F \<or> c = 0x3000 \<or> c = 0xFEFF"

definition is_word :: "nat \<Rightarrow> bool" where
  "is_word c \<longleftrightarrow>
     (0x30 \<le> c \<and> c \<le> 0x39) \<or> (0x41 \<le> c \<and> c \<le> 0x5A) \<or> c = 0x5F \<or>
     (0x61 \<le> c \<and> c \<le> 0x7A)"

definition is_nl :: "nat \<Rightarrow> bool" where
  "is_nl c \<longleftrightarrow> c = 0xA"

definition trim_start :: "jstring \<Rightarrow> jstring" where
  "trim_start s = dropWhile is_ws s"

definition trim_end :: "jstring \<Rightarrow> jstring" where
  "trim_end s = rev (dropWhile is_ws (rev s))"

definition trim :: "jstring \<Rightarrow> jstring" where
  "trim s = trim_end (trim_start s)"

text \<open>\<open>s.split(',')\<close>: the pieces of \<open>s\<close> between the separators, at least one piece.\<close>

fun split :: "nat \<Rightarrow> jstring \<Rightarrow> jstring list" where
  "split sep [] = [[]]"
| "split sep (c # cs) =
     (if c = sep then [] # split sep cs
      else (case split sep cs of p # ps \<Rightarrow> (c # p) # ps | [] \<Rightarrow> [[c]]))"

text \<open>\<open>xs[i]\<close> on an array: \<open>undefined\<close> (here \<open>None\<close>) out of range.\<close>

definition index :: "'a list \<Rightarrow> nat \<Rightarrow> 'a option" where
  "index xs i = (if i < length xs then Some (xs ! i) else None)"

text \<open>The decimal digits of a non-negative integer, as a template literal prints it.\<close>

fun decimal :: "nat \<Rightarrow> jstring" where
  "decimal n = (if n < 10 then [0x30 + n] else decimal (n div 10) @ [0x30 + n mod 10])"

declare decimal.simps [simp del]

section \<open>The fence pattern\<close>

text \<open>
  The source strips a markdown fence with the regular expression
  \<^verbatim>\<open>/^```(\w*)?\s*\n?(.*?)\n?\s*```$/s\<close>.
  A backtracking matcher in the style of the ECMAScript specification: every piece of the
  pattern takes the continuation that matches the rest of the pattern, tries its own
  alternatives in the order of its quantifier (longest first when greedy, shortest first
  when lazy) and returns the result of the first alternative on which the continuation
  succeeds.
\<close>

type_synonym 'a cont = "jstring \<Rightarrow> 'a option"

definition fence :: jstring where
  "fence = [0x60, 0x60, 0x60]"

definition lit :: "jstring \<Rightarrow> 'a cont \<Rightarrow> 'a cont" where
  "lit p k s = (if take (length p) s = p then k (drop (length p) s) else None)"

fun greedy_star :: "(nat \<Rightarrow> bool) \<Rightarrow> 'a cont \<Rightarrow> 'a cont" where
  "greedy_star p k [] = k []"
| "greedy_star p k (c # cs) =
     (if p c then (case greedy_star p k cs of Some r \<Rightarrow> Some r | None \<Rightarrow> k (c # cs))
      else k (c # cs))"

fun greedy_opt :: "(nat \<Rightarrow> bool) \<Rightarrow> 'a cont \<Rightarrow> 'a cont" where
  "greedy_opt p k [] = k []"
| "greedy_opt p k (c # cs) =
     (if p c then (case k cs of Some r \<Rightarrow> Some r | None \<Rightarrow> k (c # cs))
      else k (c # cs))"

text \<open>
  The lazy group \<open>(.*?)\<close> under the flag \<open>s\<close>: the dot takes any code unit. The
  continuation receives the captured text; \<open>acc\<close> is the capture so far, reversed.
\<close>

fun lazy_any :: "(jstring \<Rightarrow> 'a cont) \<Rightarrow> jstring \<Rightarrow> 'a cont" where
  "lazy_any k acc [] = k (rev acc) []"
| "lazy_any k acc (c # cs) =
     (case k (rev acc) (c # cs) of Some r \<Rightarrow> Some r | None \<Rightarrow> lazy_any k (c # acc) cs)"

definition at_end :: "'a \<Rightarrow> 'a cont" where
  "at_end r s = (if s = [] then Some r else None)"

text \<open>
  \<open>fence_match s\<close> is \<open>match[2]\<close> of \<open>s.match(fenceRegex)\<close>, and \<open>None\<close> when the
  pattern does not match. The pattern starts with \<open>^\<close> and has no flag \<open>m\<close>, so a match
  can only start at the first code unit. The first group \<open>(\w*)?\<close> is not read by the
  source, and its alternatives are those of \<open>\w*\<close>.
\<close>

definition fence_close :: "jstring \<Rightarrow> jstring cont" where
  "fence_close g = greedy_opt is_nl (greedy_star is_ws (lit fence (at_end g)))"

definition fence_match :: "jstring \<Rightarrow> jstring option" where
  "fence_match =
     lit fence (greedy_star is_word (greedy_star is_ws (greedy_opt is_nl
       (lazy_any fence_close []))))"

text \<open>
  Lines 243 to 248 of the handler, and the same lines 191 to 196 of the direct service:
  trim, take the second group when the pattern matches and the group is not empty, trim
  again.
\<close>

definition extract_json_text :: "jstring \<Rightarrow> jstring" where
  "extract_json_text responseText =
     (let jsonStr = trim responseText in
      case fence_match jsonStr of
        Some g \<Rightarrow> if g \<noteq> [] then trim g else jsonStr
      | None \<Rightarrow> jsonStr)"

section \<open>Values\<close>

text \<open>
  What \<open>JSON.parse\<close> returns. A number is an IEEE double: a finite value or an infinity
  (an overflowing literal); the program only ever tests a number for truthiness. An object
  is the list of its own properties in insertion order; \<open>JSON.parse\<close> returns objects
  whose keys are distinct.
\<close>

datatype number = Finite real | PlusInfinity | MinusInfinity

datatype json =
    JNull
  | JBool bool
  | JNum number
  | JStr jstring
  | JArr "json list"
  | JObj "(jstring \<times> json) list"

text \<open>
  A value read from a property is a JSON value or \<open>undefined\<close>, here \<open>None\<close>.
  \<open>lookup v k\<close> is \<open>v.k\<close> for a value \<open>v\<close> other than \<open>null\<close> and for the property
  names the program reads (\<open>error\<close>, \<open>message\<close>, \<open>name\<close>, \<open>imageData\<close>,
  \<open>mimeType\<close>), none of which a string, number, boolean or array has or inherits.
\<close>

fun lookup :: "json \<Rightarrow> jstring \<Rightarrow> json option" where
  "lookup (JObj kvs) k = map_of kvs k"
| "lookup _ k = None"

fun truthy :: "json option \<Rightarrow> bool" where
  "truthy None = False"
| "truthy (Some JNull) = False"
| "truthy (Some (JBool b)) = b"
| "truthy (Some (JNum n)) = (n \<noteq> Finite 0)"
| "truthy (Some (JStr s)) = (s \<noteq> [])"
| "truthy (Some (JArr _)) = True"
| "truthy (Some (JObj _)) = True"

text \<open>\<open>a || b\<close> with a second operand that is a value.\<close>

definition or_else :: "json option \<Rightarrow> json \<Rightarrow> json" where
  "or_else a b = (case a of Some v \<Rightarrow> if truthy a then v else b | None \<Rightarrow> b)"

text \<open>\<open>typeof a === 'string'\<close>.\<close>

fun is_string :: "json option \<Rightarrow> bool" where
  "is_string (Some (JStr s)) = True"
| "is_string _ = False"

text \<open>
  \<open>v.k = x\<close> on an object: an existing property keeps its place. The source assigns only
  under a guard that holds for objects alone.
\<close>

fun update :: "jstring \<Rightarrow> json \<Rightarrow> (jstring \<times> json) list \<Rightarrow> (jstring \<times> json) list" where
  "update k x [] = [(k, x)]"
| "update k x ((k', y) # kvs) = (if k' = k then (k, x) # kvs else (k', y) # update k x kvs)"

fun assign :: "json \<Rightarrow> jstring \<Rightarrow> json \<Rightarrow> json" where
  "assign (JObj kvs) k x = JObj (update k x kvs)"
| "assign v k x = v"

text \<open>
  A thrown (or rejected) value: an instance of \<open>Error\<close> with its name and message, or any
  other value, such as the event a \<open>FileReader\<close> hands to \<open>onerror\<close>.
\<close>

datatype thrown = Error_instance jstring jstring | Other_value

text \<open>\<open>error instanceof Error ? error.message : d\<close>.\<close>

fun message_or :: "jstring \<Rightarrow> thrown \<Rightarrow> jstring" where
  "message_or d (Error_instance n m) = m"
| "message_or d Other_value = d"

section \<open>The platform\<close>

text \<open>
  The JavaScript engine is not part of the repository and is a parameter of every
  function below: \<open>JSON_parse\<close> returns the parsed value, or \<open>Inl m\<close> when it throws a
  \<open>SyntaxError\<close> with message \<open>m\<close>; \<open>JSON_stringify\<close> serialises a value;
  \<open>read_of_null k\<close> and \<open>read_of_undefined k\<close> are the messages of the \<open>TypeError\<close>
  thrown on reading property \<open>k\<close> of \<open>null\<close> and of \<open>undefined\<close>.
\<close>

record platform =
  JSON_parse :: "jstring \<Rightarrow> jstring + json"
  JSON_stringify :: "json \<Rightarrow> jstring"
  read_of_null :: "jstring \<Rightarrow> jstring"
  read_of_undefined :: "jstring \<Rightarrow> jstring"

definition parse :: "platform \<Rightarrow> jstring \<Rightarrow> thrown + json" where
  "parse P s =
     (case JSON_parse P s of
        Inl m \<Rightarrow> Inl (Error_instance (ascii ''SyntaxError'') m)
      | Inr v \<Rightarrow> Inr v)"

definition read_prop :: "platform \<Rightarrow> json \<Rightarrow> jstring \<Rightarrow> thrown + json option" where
  "read_prop P v k =
     (if v = JNull then Inl (Error_instance (ascii ''TypeError'') (read_of_null P k))
      else Inr (lookup v k))"

definition error_object :: "json \<Rightarrow> json \<Rightarrow> json" where
  "error_object e m = JObj [(ascii ''error'', e), (ascii ''message'', m)]"

section \<open>The image encoder\<close>

text \<open>
  A \<open>File\<close> as the program sees it: what \<open>readAsDataURL\<close> ends with (\<open>onload\<close> with
  \<open>reader.result\<close>, or \<open>onerror\<close>) and its \<open>type\<close>.
\<close>

datatype reader_outcome = Loaded jstring | Failed

record image_file =
  reader :: reader_outcome
  file_type :: jstring

definition fileToBase64 :: "image_file \<Rightarrow> thrown + jstring" where
  "fileToBase64 f =
     (case reader f of
        Failed \<Rightarrow> Inl Other_value
      | Loaded result \<Rightarrow>
          (case index (split 0x2C result) 1 of
             Some base64String \<Rightarrow>
               if base64String \<noteq> [] then Inr base64String
               else Inl (Error_instance (ascii ''Error'')
                      (ascii ''Failed to read base64 string from file.''))
           | None \<Rightarrow>
               Inl (Error_instance (ascii ''Error'')
                 (ascii ''Failed to read base64 string from file.''))))"

section \<open>The proxied service\<close>

text \<open>
  \<open>fetch\<close> is a parameter: it rejects, or responds with a status and a body.
  \<open>response.ok\<close> is a status from 200 to 299; \<open>response.json()\<close> parses the body.
\<close>

record request =
  url :: jstring
  http_method :: jstring
  req_headers :: "(jstring \<times> jstring) list"
  req_body :: jstring

record http_response =
  status :: nat
  text_of :: jstring

datatype fetch_outcome = Rejected thrown | Responded http_response

definition ok :: "http_response \<Rightarrow> bool" where
  "ok r \<longleftrightarrow> 200 \<le> status r \<and> status r \<le> 299"

definition response_json :: "platform \<Rightarrow> http_response \<Rightarrow> thrown + json" where
  "response_json P r = parse P (text_of r)"

definition identify_request :: "platform \<Rightarrow> jstring \<Rightarrow> image_file \<Rightarrow> request" where
  "identify_request P base64ImageData imageFile =
     \<lparr>url = ascii ''/.netlify/functions/identify'',
      http_method = ascii ''POST'',
      req_headers = [(ascii ''Content-Type'', ascii ''application/json'')],
      req_body = JSON_stringify P (JObj
        [(ascii ''imageData'', JStr base64ImageData),
         (ascii ''mimeType'',
            JStr (if file_type imageFile \<noteq> [] then file_type imageFile
                  else ascii ''image/jpeg''))])\<rparr>"

definition failed_with_status :: "http_response \<Rightarrow> jstring" where
  "failed_with_status response = ascii ''Request failed with status '' @ decimal (status response)"

text \<open>The \<open>try\<close> block of \<open>identifyImage\<close>; \<open>Inl\<close> is what it throws.\<close>

definition identifyImage_try ::
  "platform \<Rightarrow> (request \<Rightarrow> fetch_outcome) \<Rightarrow> image_file \<Rightarrow> thrown + json" where
  "identifyImage_try P fetch imageFile =
     (case fileToBase64 imageFile of
        Inl e \<Rightarrow> Inl e
      | Inr base64ImageData \<Rightarrow>
          (case fetch (identify_request P base64ImageData imageFile) of
             Rejected e \<Rightarrow> Inl e
           | Responded response \<Rightarrow>
               if \<not> ok response then
                 (let errorData =
                    (case response_json P response of
                       Inl _ \<Rightarrow> error_object (JStr (ascii ''Network Error''))
                                  (JStr (failed_with_status response))
                     | Inr v \<Rightarrow> v)
                  in case read_prop P errorData (ascii ''error'') of
                       Inl e \<Rightarrow> Inl e
                     | Inr err \<Rightarrow>
                         (case read_prop P errorData (ascii ''message'') of
                            Inl e \<Rightarrow> Inl e
                          | Inr msg \<Rightarrow>
                              Inr (error_object (or_else err (JStr (ascii ''API Error'')))
                                     (or_else msg (JStr (failed_with_status response))))))
               else response_json P response))"

text \<open>
  The proxied \<open>identifyImage\<close> with its \<open>catch\<close>. The result is \<open>Inr\<close> when the promise resolves and
  \<open>Inl\<close> when it rejects.
\<close>

definition identifyImage ::
  "platform \<Rightarrow> (request \<Rightarrow> fetch_outcome) \<Rightarrow> image_file \<Rightarrow> thrown + json" where
  "identifyImage P fetch imageFile =
     (case identifyImage_try P fetch imageFile of
        Inr result \<Rightarrow> Inr result
      | Inl error \<Rightarrow>
          Inr (error_object (JStr (ascii ''Client-Side Error''))
                 (JStr (message_or
                    (ascii ''An unexpected error occurred while communicating with the identification service.'')
                    error))))"

section \<open>The model call\<close>

text \<open>
  \<open>ai.models.generateContent\<close> is a parameter: it throws, or returns a response whose
  \<open>text\<close> is a string or \<open>undefined\<close>. The request carries the key the client was built
  with, the model name and the inline image; the instruction text and the generation
  settings are constants of each call site and are left out.
\<close>

record gen_request =
  apiKey :: jstring
  model :: jstring
  inline_mimeType :: "json option"
  inline_data :: "json option"

datatype gen_outcome = Gen_throws thrown | Gen_text "jstring option"

definition modelName :: jstring where
  "modelName = ascii ''gemini-2.5-flash-preview-04-17''"

section \<open>The direct service\<close>

definition canonical_fallback :: jstring where
  "canonical_fallback =
     ascii ''The image may not contain a recognizable plant or fruit, or the quality is too low.''"

text \<open>The string literal of the direct service, line 152, message.\<close>

definition lo_key_not_set :: jstring where
  "lo_key_not_set =
     [0xEA5, 0xEB0, 0xEAB, 0xEB1, 0xE94, 0x20, 0x41, 0x50, 0x49, 0x20, 0xE9A, 0xECD, 0xEC8,
      0xEC4, 0xE94, 0xEC9, 0xE96, 0xEB7, 0xE81, 0xE95, 0xEB1, 0xEC9, 0xE87, 0xE84, 0xEC8,
      0xEB2, 0x2E]"

text \<open>The string literal of the direct service, line 203.\<close>

definition lo_unrecognizable :: jstring where
  "lo_unrecognizable =
     [0xEAE, 0xEB9, 0xE9A, 0xE9E, 0xEB2, 0xE9A, 0xEAD, 0xEB2, 0xE94, 0xE88, 0xEB0, 0xE9A,
      0xECD, 0xEC8, 0xEA1, 0xEB5, 0xE9E, 0xEB7, 0xE94, 0x20, 0xEAB, 0xEBC, 0xEB7, 0x20,
      0xEDD, 0xEB2, 0xE81, 0xEC4, 0xEA1, 0xEC9, 0xE97, 0xEB5, 0xEC8, 0xEAA, 0xEB2, 0xEA1,
      0xEB2, 0xE94, 0xE81, 0xEA7, 0xE94, 0xEAA, 0xEAD, 0xE9A, 0xEC4, 0xE94, 0xEC9, 0x2C,
      0x20, 0xEAB, 0xEBC, 0xEB7, 0x20, 0xE84, 0xEB8, 0xE99, 0xE99, 0xEB0, 0xE9E, 0xEB2,
      0xE9A, 0xE82, 0xEAD, 0xE87, 0xEAE, 0xEB9, 0xE9A, 0xE95, 0xEC8, 0xEB3, 0xEC0, 0xE81,
      0xEB5, 0xE99, 0xEC4, 0xE9B, 0x2E]"

text \<open>The string literal of the direct service, line 213.\<close>

definition lo_api_error_prefix :: jstring where
  "lo_api_error_prefix =
     [0xEC0, 0xE81, 0xEB5, 0xE94, 0xE82, 0xECD, 0xEC9, 0xE9C, 0xEB4, 0xE94, 0xE9E, 0xEB2,
      0xE94, 0xEC3, 0xE99, 0xE81, 0xEB2, 0xE99, 0xEC0, 0xE8A, 0xEB7, 0xEC8, 0xEAD, 0xEA1,
      0xE95, 0xECD, 0xEC8, 0x20, 0x41, 0x50, 0x49, 0x3A, 0x20]"

text \<open>
  Lines 198 to 205: parse the extracted text and replace the canonical English message
  of an error result by its Lao translation.
\<close>

definition return_parsed :: "platform \<Rightarrow> jstring \<Rightarrow> thrown + json" where
  "return_parsed P jsonStr =
     (case parse P jsonStr of
        Inl e \<Rightarrow> Inl e
      | Inr parsedData \<Rightarrow>
          (case read_prop P parsedData (ascii ''error'') of
             Inl e \<Rightarrow> Inl e
           | Inr err \<Rightarrow>
               if truthy err \<and>
                  lookup parsedData (ascii ''message'') = Some (JStr canonical_fallback)
               then Inr (assign parsedData (ascii ''message'') (JStr lo_unrecognizable))
               else Inr parsedData))"

definition direct_request :: "jstring option \<Rightarrow> jstring \<Rightarrow> image_file \<Rightarrow> gen_request" where
  "direct_request API_KEY base64ImageData imageFile =
     \<lparr>apiKey = (case API_KEY of
                  Some k \<Rightarrow> if k \<noteq> [] then k else ascii ''MISSING_API_KEY''
                | None \<Rightarrow> ascii ''MISSING_API_KEY''),
      model = modelName,
      inline_mimeType = Some (JStr (if file_type imageFile \<noteq> [] then file_type imageFile
                                    else ascii ''image/jpeg'')),
      inline_data = Some (JStr base64ImageData)\<rparr>"

text \<open>The \<open>try\<close> block of the direct \<open>identifyImage\<close>.\<close>

definition identifyImage_direct_try ::
  "platform \<Rightarrow> (gen_request \<Rightarrow> gen_outcome) \<Rightarrow> jstring option \<Rightarrow> image_file \<Rightarrow> thrown + json" where
  "identifyImage_direct_try P generateContent API_KEY imageFile =
     (case fileToBase64 imageFile of
        Inl e \<Rightarrow> Inl e
      | Inr base64ImageData \<Rightarrow>
          (case generateContent (direct_request API_KEY base64ImageData imageFile) of
             Gen_throws e \<Rightarrow> Inl e
           | Gen_text None \<Rightarrow>
               Inl (Error_instance (ascii ''TypeError'') (read_of_undefined P (ascii ''trim'')))
           | Gen_text (Some responseText) \<Rightarrow>
               return_parsed P (extract_json_text responseText)))"

text \<open>
  The direct \<open>identifyImage\<close> with its key check and its \<open>catch\<close>; \<open>Inr\<close> when the
  promise resolves.
\<close>

definition identifyImage_direct ::
  "platform \<Rightarrow> (gen_request \<Rightarrow> gen_outcome) \<Rightarrow> jstring option \<Rightarrow> image_file \<Rightarrow> thrown + json" where
  "identifyImage_direct P generateContent API_KEY imageFile =
     (if API_KEY = None \<or> API_KEY = Some [] then
        Inr (error_object (JStr (ascii ''Configuration Error'')) (JStr lo_key_not_set))
      else
        (case identifyImage_direct_try P generateContent API_KEY imageFile of
           Inr parsedData \<Rightarrow> Inr parsedData
         | Inl error \<Rightarrow>
             Inr (error_object (JStr (ascii ''API Error''))
                    (JStr (lo_api_error_prefix @
                       message_or (ascii ''An unexpected error occurred during identification.'')
                         error)))))"

section \<open>The proxy handler\<close>

record event =
  httpMethod :: jstring
  event_body :: "jstring option"

record response =
  statusCode :: nat
  body :: jstring
  headers :: "(jstring \<times> jstring) list"

definition reply :: "platform \<Rightarrow> nat \<Rightarrow> json \<Rightarrow> response" where
  "reply P code v =
     \<lparr>statusCode = code, body = JSON_stringify P v,
      headers = [(ascii ''Content-Type'', ascii ''application/json'')]\<rparr>"

text \<open>Lines 250 to 256: parse the extracted text and answer 200 with the parsed value.\<close>

definition respond_parsed :: "platform \<Rightarrow> jstring \<Rightarrow> thrown + response" where
  "respond_parsed P jsonStr =
     (case parse P jsonStr of
        Inl e \<Rightarrow> Inl e
      | Inr parsedData \<Rightarrow> Inr (reply P 200 parsedData))"

definition handler_request :: "jstring \<Rightarrow> json \<Rightarrow> gen_request" where
  "handler_request API_KEY parsed =
     \<lparr>apiKey = API_KEY, model = modelName,
      inline_mimeType = lookup parsed (ascii ''mimeType''),
      inline_data = lookup parsed (ascii ''imageData'')\<rparr>"

text \<open>
  The second \<open>try\<close> block of the handler, the same in both revisions up to the
  instruction text: call the model, check that its text is a string, strip the fence,
  parse, answer.
\<close>

definition identify_try ::
  "platform \<Rightarrow> (gen_request \<Rightarrow> gen_outcome) \<Rightarrow> jstring \<Rightarrow> json \<Rightarrow> thrown + response" where
  "identify_try P generateContent API_KEY parsed =
     (case generateContent (handler_request API_KEY parsed) of
        Gen_throws e \<Rightarrow> Inl e
      | Gen_text None \<Rightarrow>
          Inl (Error_instance (ascii ''Error'')
            (ascii ''Invalid response format from AI: Text content is not a string.''))
      | Gen_text (Some responseText) \<Rightarrow> respond_parsed P (extract_json_text responseText))"

subsection \<open>The English revision\<close>

text \<open>The first \<open>try\<close> block: the request body, checked for truthy fields.\<close>

definition request_body :: "platform \<Rightarrow> event \<Rightarrow> thrown + json" where
  "request_body P ev =
     (case event_body ev of
        None \<Rightarrow> Inl (Error_instance (ascii ''Error'') (ascii ''Request body is empty.''))
      | Some b \<Rightarrow>
          if b = [] then Inl (Error_instance (ascii ''Error'') (ascii ''Request body is empty.''))
          else
            (case parse P b of
               Inl e \<Rightarrow> Inl e
             | Inr parsed \<Rightarrow>
                 (case read_prop P parsed (ascii ''imageData'') of
                    Inl e \<Rightarrow> Inl e
                  | Inr imageData \<Rightarrow>
                      if \<not> truthy imageData then
                        Inl (Error_instance (ascii ''Error'')
                          (ascii ''Missing imageData or mimeType in request body.''))
                      else
                        (case read_prop P parsed (ascii ''mimeType'') of
                           Inl e \<Rightarrow> Inl e
                         | Inr mimeType \<Rightarrow>
                             if \<not> truthy mimeType then
                               Inl (Error_instance (ascii ''Error'')
                                 (ascii ''Missing imageData or mimeType in request body.''))
                             else Inr parsed))))"

definition handler ::
  "platform \<Rightarrow> jstring option \<Rightarrow> (gen_request \<Rightarrow> gen_outcome) \<Rightarrow> event \<Rightarrow> thrown + response" where
  "handler P API_KEY generateContent ev =
     (if httpMethod ev \<noteq> ascii ''POST'' then
        Inr (reply P 405 (error_object (JStr (ascii ''Method Not Allowed''))
               (JStr (ascii ''Only POST requests are accepted.''))))
      else
        (case API_KEY of
           None \<Rightarrow>
             Inr (reply P 500 (error_object (JStr (ascii ''Configuration Error''))
                    (JStr (ascii ''API Key is not configured on the server.''))))
         | Some key \<Rightarrow>
             if key = [] then
               Inr (reply P 500 (error_object (JStr (ascii ''Configuration Error''))
                      (JStr (ascii ''API Key is not configured on the server.''))))
             else
               (case request_body P ev of
                  Inl error \<Rightarrow>
                    Inr (reply P 400 (error_object (JStr (ascii ''Bad Request''))
                           (JStr (message_or (ascii ''Invalid request body.'') error))))
                | Inr parsed \<Rightarrow>
                    (case identify_try P generateContent key parsed of
                       Inr r \<Rightarrow> Inr r
                     | Inl error \<Rightarrow>
                         Inr (reply P 500 (error_object (JStr (ascii ''AI Service Error''))
                                (JStr (message_or
                                   (ascii ''An unexpected error occurred during identification with the AI model.'')
                                   error))))))))"

subsection \<open>The Lao revision\<close>

text \<open>The string literal of the handler's Lao revision, line 29, error.\<close>

definition lo_method_not_allowed :: jstring where
  "lo_method_not_allowed =
     [0xEA7, 0xEB4, 0xE97, 0xEB5, 0xE81, 0xEB2, 0xE99, 0xE9A, 0xECD, 0xEC8, 0xEC4, 0xE94,
      0xEC9, 0xEAE, 0xEB1, 0xE9A, 0xEAD, 0xEB0, 0xE99, 0xEB8, 0xE8D, 0xEB2, 0xE94]"

text \<open>The string literal of the handler's Lao revision, line 29, message.\<close>

definition lo_only_post :: jstring where
  "lo_only_post =
     [0xEAE, 0xEB1, 0xE9A, 0xEAA, 0xEB0, 0xEC0, 0xE9E, 0xEB2, 0xEB0, 0xE81, 0xEB2, 0xE99,
      0xEAE, 0xEC9, 0xEAD, 0xE87, 0xE82, 0xECD, 0xEC1, 0xE9A, 0xE9A, 0x20, 0x50, 0x4F,
      0x53, 0x54, 0x20, 0xEC0, 0xE97, 0xEBB, 0xEC8, 0xEB2, 0xE99, 0xEB1, 0xEC9, 0xE99,
      0x2E]"

text \<open>The string literal of the handler's Lao revision, line 40, error.\<close>

definition lo_configuration_error :: jstring where
  "lo_configuration_error =
     [0xE82, 0xECD, 0xEC9, 0xE9C, 0xEB4, 0xE94, 0xE9E, 0xEB2, 0xE94, 0xE81, 0xEB2, 0xE99,
      0xE95, 0xEB1, 0xEC9, 0xE87, 0xE84, 0xEC8, 0xEB2]"

text \<open>The string literal of the handler's Lao revision, line 40, message.\<close>

definition lo_key_not_configured :: jstring where
  "lo_key_not_configured =
     [0x41, 0x50, 0x49, 0x20, 0x4B, 0x65, 0x79, 0x20, 0xE9A, 0xECD, 0xEC8, 0xEC4, 0xE94,
      0xEC9, 0xE96, 0xEB7, 0xE81, 0xE95, 0xEB1, 0xEC9, 0xE87, 0xE84, 0xEC8, 0xEB2, 0xEC0,
      0xE97, 0xEB4, 0xE87, 0xEC0, 0xE8A, 0xEB5, 0xE9A, 0xEC0, 0xEA7, 0xEB5, 0x2E]"

text \<open>The string literal of the handler's Lao revision, line 48.\<close>

definition lo_body_empty :: jstring where
  "lo_body_empty =
     [0xEC0, 0xE99, 0xEB7, 0xEC9, 0xEAD, 0xEC3, 0xE99, 0xE81, 0xEB2, 0xE99, 0xEAE, 0xEC9,
      0xEAD, 0xE87, 0xE82, 0xECD, 0xEAB, 0xEA7, 0xEC8, 0xEB2, 0xE87, 0xEC0, 0xE9B, 0xEBB,
      0xEC8, 0xEB2, 0x2E]"

text \<open>The string literal of the handler's Lao revision, line 52.\<close>

definition lo_missing_fields :: jstring where
  "lo_missing_fields =
     [0x69, 0x6D, 0x61, 0x67, 0x65, 0x44, 0x61, 0x74, 0x61, 0x20, 0xEAB, 0xEBC, 0xEB7,
      0x20, 0x6D, 0x69, 0x6D, 0x65, 0x54, 0x79, 0x70, 0x65, 0x20, 0xE82, 0xEB2, 0xE94,
      0xEAB, 0xEB2, 0xE8D, 0xEC4, 0xE9B, 0x20, 0xEAB, 0xEBC, 0xEB7, 0x20, 0xE9A, 0xECD,
      0xEC8, 0xE96, 0xEB7, 0xE81, 0xE95, 0xEC9, 0xEAD, 0xE87, 0xEC3, 0xE99, 0xEC0, 0xE99,
      0xEB7, 0xEC9, 0xEAD, 0xEC3, 0xE99, 0xE81, 0xEB2, 0xE99, 0xEAE, 0xEC9, 0xEAD, 0xE87,
      0xE82, 0xECD, 0x2E]"

text \<open>The string literal of the handler's Lao revision, line 62, error.\<close>

definition lo_bad_request :: jstring where
  "lo_bad_request =
     [0xE81, 0xEB2, 0xE99, 0xEAE, 0xEC9, 0xEAD, 0xE87, 0xE82, 0xECD, 0xE9A, 0xECD, 0xEC8,
      0xE96, 0xEB7, 0xE81, 0xE95, 0xEC9, 0xEAD, 0xE87]"

text \<open>The string literal of the handler's Lao revision, line 62, message.\<close>

definition lo_invalid_body :: jstring where
  "lo_invalid_body =
     [0xEC0, 0xE99, 0xEB7, 0xEC9, 0xEAD, 0xEC3, 0xE99, 0xE81, 0xEB2, 0xE99, 0xEAE, 0xEC9,
      0xEAD, 0xE87, 0xE82, 0xECD, 0xE9A, 0xECD, 0xEC8, 0xE96, 0xEB7, 0xE81, 0xE95, 0xEC9,
      0xEAD, 0xE87, 0x2E]"

text \<open>The string literal of the handler's Lao revision, line 125.\<close>

definition lo_unexpected_ai :: jstring where
  "lo_unexpected_ai =
     [0xEC0, 0xE81, 0xEB5, 0xE94, 0xE82, 0xECD, 0xEC9, 0xE9C, 0xEB4, 0xE94, 0xE9E, 0xEB2,
      0xE94, 0xE97, 0xEB5, 0xEC8, 0xE9A, 0xECD, 0xEC8, 0xE84, 0xEB2, 0xE94, 0xE84, 0xEB4,
      0xE94, 0xEC3, 0xE99, 0xEA5, 0xEB0, 0xEAB, 0xEA7, 0xEC8, 0xEB2, 0xE87, 0xE81, 0xEB2,
      0xE99, 0xE81, 0xEA7, 0xE94, 0xEAA, 0xEAD, 0xE9A, 0xE94, 0xEC9, 0xEA7, 0xE8D, 0xEC1,
      0xE9A, 0xE9A, 0xE88, 0xEB3, 0xEA5, 0xEAD, 0xE87, 0x20, 0x41, 0x49, 0x2E]"

text \<open>The string literal of the handler's Lao revision, line 132.\<close>

definition lo_ai_service_error :: jstring where
  "lo_ai_service_error =
     [0xE82, 0xECD, 0xEC9, 0xE9C, 0xEB4, 0xE94, 0xE9E, 0xEB2, 0xE94, 0xE88, 0xEB2, 0xE81,
      0xE9A, 0xECD, 0xEA5, 0xEB4, 0xE81, 0xEB2, 0xE99, 0x20, 0x41, 0x49]"

text \<open>The first \<open>try\<close> block: the request body, checked with \<open>typeof\<close>.\<close>

definition request_body_lo :: "platform \<Rightarrow> event \<Rightarrow> thrown + json" where
  "request_body_lo P ev =
     (case event_body ev of
        None \<Rightarrow> Inl (Error_instance (ascii ''Error'') lo_body_empty)
      | Some b \<Rightarrow>
          if b = [] then Inl (Error_instance (ascii ''Error'') lo_body_empty)
          else
            (case parse P b of
               Inl e \<Rightarrow> Inl e
             | Inr parsed \<Rightarrow>
                 (case read_prop P parsed (ascii ''imageData'') of
                    Inl e \<Rightarrow> Inl e
                  | Inr imageData \<Rightarrow>
                      if \<not> is_string imageData then
                        Inl (Error_instance (ascii ''Error'') lo_missing_fields)
                      else
                        (case read_prop P parsed (ascii ''mimeType'') of
                           Inl e \<Rightarrow> Inl e
                         | Inr mimeType \<Rightarrow>
                             if \<not> is_string mimeType then
                               Inl (Error_instance (ascii ''Error'') lo_missing_fields)
                             else
                               Inr (JObj [(ascii ''imageData'', the imageData),
                                          (ascii ''mimeType'', the mimeType)])))))"

definition handler_lo ::
  "platform \<Rightarrow> jstring option \<Rightarrow> (gen_request \<Rightarrow> gen_outcome) \<Rightarrow> event \<Rightarrow> thrown + response" where
  "handler_lo P API_KEY generateContent ev =
     (if httpMethod ev \<noteq> ascii ''POST'' then
        Inr (reply P 405 (error_object (JStr lo_method_not_allowed) (JStr lo_only_post)))
      else
        (case API_KEY of
           None \<Rightarrow>
             Inr (reply P 500 (error_object (JStr lo_configuration_error)
                    (JStr lo_key_not_configured)))
         | Some key \<Rightarrow>
             if key = [] then
               Inr (reply P 500 (error_object (JStr lo_configuration_error)
                      (JStr lo_key_not_configured)))
             else
               (case request_body_lo P ev of
                  Inl error \<Rightarrow>
                    Inr (reply P 400 (error_object (JStr lo_bad_request)
                           (JStr (message_or lo_invalid_body error))))
                | Inr parsed \<Rightarrow>
                    (case identify_try P generateContent key parsed of
                       Inr r \<Rightarrow> Inr r
                     | Inl error \<Rightarrow>
                         Inr (reply P 500 (error_object (JStr lo_ai_service_error)
                                (JStr (message_or lo_unexpected_ai error))))))))"

section \<open>How the page tells the variants apart\<close>

text \<open>
  The English page shows the error card when \<open>scanResult.error\<close> is truthy; the Lao page
  asks \<open>isIdentificationError\<close>, which is \<open>result.error !== undefined\<close>.
\<close>

definition shows_error :: "json \<Rightarrow> bool" where
  "shows_error scanResult \<longleftrightarrow> truthy (lookup scanResult (ascii ''error''))"

definition isIdentificationError :: "json \<Rightarrow> bool" where
  "isIdentificationError result \<longleftrightarrow> lookup result (ascii ''error'') \<noteq> None"

section \<open>Sample data\<close>

text \<open>
  The theorems below hold for every platform. The examples need one: \<open>sample\<close> answers
  as \<open>JSON.parse\<close> and \<open>JSON.stringify\<close> do (with the error messages of V8) on the
  texts and values listed here, which are the only ones the examples use.
\<close>

definition mango_text :: jstring where
  "mango_text = ascii ''{\"name\":\"Mango\",\"description\":\"A tropical fruit.\"}''"

definition mango :: json where
  "mango = JObj [(ascii ''name'', JStr (ascii ''Mango'')),
                 (ascii ''description'', JStr (ascii ''A tropical fruit.''))]"

definition unable_text :: jstring where
  "unable_text =
     ascii ''{\"error\":\"Unable to identify\",\"message\":\"The image may not contain a recognizable plant or fruit, or the quality is too low.\"}''"

definition unable :: json where
  "unable = error_object (JStr (ascii ''Unable to identify'')) (JStr canonical_fallback)"

definition numeric_body_text :: jstring where
  "numeric_body_text = ascii ''{\"imageData\":5,\"mimeType\":\"image/png\"}''"

definition numeric_body :: json where
  "numeric_body = JObj [(ascii ''imageData'', JNum (Finite 5)),
                        (ascii ''mimeType'', JStr (ascii ''image/png''))]"

definition png_body_text :: jstring where
  "png_body_text = ascii ''{\"imageData\":\"aGk=\",\"mimeType\":\"image/png\"}''"

definition png_body :: json where
  "png_body = JObj [(ascii ''imageData'', JStr (ascii ''aGk='')),
                    (ascii ''mimeType'', JStr (ascii ''image/png''))]"

definition empty_fence_text :: jstring where
  "empty_fence_text = fence @ ascii ''json'' @ [0xA, 0xA] @ fence"

definition sample_parse :: "jstring \<Rightarrow> jstring + json" where
  "sample_parse s =
     (if s = mango_text then Inr mango
      else if s = unable_text then Inr unable
      else if s = numeric_body_text then Inr numeric_body
      else if s = png_body_text then Inr png_body
      else if s = ascii ''{}'' then Inr (JObj [])
      else if s = [] then Inl (ascii ''Unexpected end of JSON input'')
      else if s = ascii ''{not json'' then Inl (ascii ''Unexpected token n in JSON at position 1'')
      else Inl (ascii ''Unexpected token '' @ take 1 s @ ascii '' in JSON at position 0''))"

definition sample_stringify :: "json \<Rightarrow> jstring" where
  "sample_stringify v =
     (if v = mango then mango_text
      else if v = unable then unable_text
      else if v = numeric_body then numeric_body_text
      else if v = png_body then png_body_text
      else if v = JObj [] then ascii ''{}''
      else [])"

definition sample_read_of :: "jstring \<Rightarrow> jstring \<Rightarrow> jstring" where
  "sample_read_of what k =
     ascii ''Cannot read properties of '' @ what @ ascii '' (reading '' @ [0x27] @ k @ [0x27]
       @ ascii '')''"

definition sample :: platform where
  "sample =
     \<lparr>JSON_parse = sample_parse, JSON_stringify = sample_stringify,
      read_of_null = sample_read_of (ascii ''null''),
      read_of_undefined = sample_read_of (ascii ''undefined'')\<rparr>"

definition png_file :: image_file where
  "png_file =
     \<lparr>reader = Loaded (ascii ''data:image/png;base64,aGk=''), file_type = ascii ''image/png''\<rparr>"

definition empty_file :: image_file where
  "empty_file =
     \<lparr>reader = Loaded (ascii ''data:image/png;base64,''), file_type = ascii ''image/png''\<rparr>"

definition unreadable_file :: image_file where
  "unreadable_file = \<lparr>reader = Failed, file_type = ascii ''image/png''\<rparr>"

text \<open>A model that answers \<open>t\<close>, a server that responds \<open>r\<close>, a network that fails.\<close>

definition answers :: "jstring \<Rightarrow> gen_request \<Rightarrow> gen_outcome" where
  "answers t req = Gen_text (Some t)"

definition responds :: "http_response \<Rightarrow> request \<Rightarrow> fetch_outcome" where
  "responds r req = Responded r"

definition throws :: "thrown \<Rightarrow> gen_request \<Rightarrow> gen_outcome" where
  "throws e req = Gen_throws e"

definition rejects :: "thrown \<Rightarrow> request \<Rightarrow> fetch_outcome" where
  "rejects e req = Rejected e"

definition post :: "jstring \<Rightarrow> event" where
  "post b = \<lparr>httpMethod = ascii ''POST'', event_body = Some b\<rparr>"

definition get_event :: event where
  "get_event = \<lparr>httpMethod = ascii ''GET'', event_body = None\<rparr>"

section \<open>The words of the specification\<close>

text \<open>
  The specification speaks of a failure classified \<open>EncodingError\<close>. The source has no
  such class; the predicate says what it would be for a thrown value to carry that name.
\<close>

fun spec_is_EncodingError :: "thrown \<Rightarrow> bool" where
  "spec_is_EncodingError (Error_instance n m) = (n = ascii ''EncodingError'')"
| "spec_is_EncodingError Other_value = False"

text \<open>
  A complete fenced block as the specification describes it: a line of three backticks
  with an optional tag, the body, an optional newline, three backticks.
\<close>

definition spec_fenced :: "jstring \<Rightarrow> jstring \<Rightarrow> jstring \<Rightarrow> jstring" where
  "spec_fenced tag inner nl = fence @ tag @ [0xA] @ inner @ nl @ fence"

text \<open>A text with fences: it starts with a fence and ends with another.\<close>

definition enclosed_by_fences :: "jstring \<Rightarrow> bool" where
  "enclosed_by_fences s \<longleftrightarrow>
     6 \<le> length s \<and> take 3 s = fence \<and> drop (length s - 3) s = fence"

text \<open>A body that starts with a no-break space.\<close>

definition nbsp_body :: jstring where
  "nbsp_body = 0xA0 # ascii ''{}''"

section \<open>Strings: facts\<close>

lemma ascii_eq_iff: "ascii a = ascii b \<longleftrightarrow> a = b"
  unfolding ascii_def by (simp add: inj_on_def)

lemma ascii_Nil_iff: "ascii a = [] \<longleftrightarrow> a = []"
  by (simp add: ascii_def)

lemma ascii_Nil: "ascii [] = []"
  by (simp add: ascii_def)

lemma ascii_Cons: "ascii (c # cs) = of_char c # ascii cs"
  by (simp add: ascii_def)

lemma not_ws_tick: "\<not> is_ws 0x60"
  by (simp add: is_ws_def)

lemma not_word_tick: "\<not> is_word 0x60"
  by (simp add: is_word_def)

lemma not_word_nl: "\<not> is_word 0xA"
  by (simp add: is_word_def)

lemma nl_ws: "is_nl c \<Longrightarrow> is_ws c"
  by (simp add: is_nl_def is_ws_def)

lemma trim_end_all_ws: "(\<forall>c \<in> set m. is_ws c) \<Longrightarrow> trim_end m = []"
  by (simp add: trim_end_def)

lemma trim_end_Cons:
  "\<not> (\<forall>x \<in> set (c # m). is_ws x) \<Longrightarrow> trim_end (c # m) = c # trim_end m"
  by (auto simp: trim_end_def dropWhile_append)

section \<open>The fence pattern: what it matches\<close>

lemma lit_append: "lit p k (p @ s) = k s"
  by (simp add: lit_def)

lemma lit_fence_end: "lit fence (at_end g) t = (if t = fence then Some g else None)"
  by (auto simp: lit_def at_end_def fence_def)

lemma dropWhile_before_fence:
  "\<not> p 0x60 \<Longrightarrow> dropWhile p (m @ fence) = dropWhile p m @ fence"
  by (induction m) (auto simp: fence_def)

text \<open>A greedy star whose continuation accepts the longest run stops there.\<close>

lemma greedy_star_first:
  "k (dropWhile p s) = Some r \<Longrightarrow> greedy_star p k s = Some r"
  by (induction s) auto

lemma greedy_opt_skip:
  "s = [] \<or> \<not> p (hd s) \<Longrightarrow> greedy_opt p k s = k s"
  by (cases s) auto

text \<open>The tail \<open>\s*```$\<close> accepts exactly white space followed by the closing fence.\<close>

lemma star_close:
  "greedy_star is_ws (lit fence (at_end g)) r =
     (if dropWhile is_ws r = fence then Some g else None)"
proof (induction r)
  case Nil
  show ?case by (simp add: lit_def at_end_def fence_def)
next
  case (Cons c cs)
  show ?case
  proof (cases "is_ws c")
    case True
    then have "c # cs \<noteq> fence" using not_ws_tick by (auto simp: fence_def)
    with True Cons show ?thesis by (simp add: lit_fence_end)
  next
    case False
    then show ?thesis by (simp add: lit_fence_end)
  qed
qed

lemma fence_close_eq:
  "fence_close g r = (if dropWhile is_ws r = fence then Some g else None)"
proof (cases r)
  case Nil
  then show ?thesis by (simp add: fence_close_def lit_fence_end)
next
  case (Cons c cs)
  show ?thesis
  proof (cases "is_nl c")
    case True
    then have "is_ws c" by (rule nl_ws)
    with True Cons show ?thesis
      by (simp add: fence_close_def star_close del: greedy_star.simps)
  next
    case False
    with Cons show ?thesis
      by (simp add: fence_close_def star_close del: greedy_star.simps)
  qed
qed

lemma dropWhile_ws_fence:
  "dropWhile is_ws (m @ fence) = fence \<longleftrightarrow> (\<forall>c \<in> set m. is_ws c)"
proof
  assume h: "dropWhile is_ws (m @ fence) = fence"
  show "\<forall>c \<in> set m. is_ws c"
  proof (rule ccontr)
    assume n: "\<not> (\<forall>c \<in> set m. is_ws c)"
    have "dropWhile is_ws (m @ fence) = dropWhile is_ws m @ fence"
      by (simp add: dropWhile_before_fence not_ws_tick)
    moreover have "dropWhile is_ws m \<noteq> []" using n by simp
    ultimately show False using h by simp
  qed
next
  assume "\<forall>c \<in> set m. is_ws c"
  then show "dropWhile is_ws (m @ fence) = fence"
    using not_ws_tick by (simp add: fence_def)
qed

text \<open>The lazy group stops at the first place from which only white space is left.\<close>

lemma lazy_any_fence:
  "lazy_any fence_close acc (m @ fence) = Some (rev acc @ trim_end m)"
proof (induction m arbitrary: acc)
  case Nil
  have "dropWhile is_ws fence = fence" using not_ws_tick by (simp add: fence_def)
  then have "lazy_any fence_close acc fence = Some (rev acc)"
    by (simp add: fence_def fence_close_eq)
  then show ?case by (simp add: trim_end_def)
next
  case (Cons c m)
  show ?case
  proof (cases "\<forall>x \<in> set (c # m). is_ws x")
    case True
    then have "dropWhile is_ws ((c # m) @ fence) = fence"
      by (simp only: dropWhile_ws_fence)
    then have "fence_close (rev acc) (c # m @ fence) = Some (rev acc)"
      by (simp add: fence_close_eq)
    then show ?thesis using True by (simp add: trim_end_all_ws)
  next
    case False
    then have "dropWhile is_ws ((c # m) @ fence) \<noteq> fence"
      by (simp only: dropWhile_ws_fence) simp
    then have "fence_close (rev acc) (c # m @ fence) = None"
      by (simp add: fence_close_eq)
    then show ?thesis using Cons [of "c # acc"] False by (simp add: trim_end_Cons)
  qed
qed

text \<open>
  On a text between two fences the pattern matches, and its second group is what is
  left of the middle after the word characters and the white space at its start and the
  white space at its end.
\<close>

lemma fence_match_fenced:
  "fence_match (fence @ mid @ fence) =
     Some (trim_end (dropWhile is_ws (dropWhile is_word mid)))"
proof -
  let ?a = "dropWhile is_word mid"
  let ?b = "dropWhile is_ws ?a"
  have hd: "?b @ fence = [] \<or> \<not> is_nl (hd (?b @ fence))"
  proof (cases "?b = []")
    case True
    then show ?thesis by (simp add: fence_def is_nl_def del: dropWhile_eq_Nil_conv)
  next
    case False
    then have "\<not> is_ws (hd ?b)" by (metis hd_dropWhile)
    then show ?thesis using False nl_ws by auto
  qed
  have 1: "greedy_opt is_nl (lazy_any fence_close []) (?b @ fence) = Some (trim_end ?b)"
    using hd by (simp add: greedy_opt_skip lazy_any_fence)
  have 2: "greedy_star is_ws (greedy_opt is_nl (lazy_any fence_close [])) (?a @ fence)
             = Some (trim_end ?b)"
    by (rule greedy_star_first) (simp add: dropWhile_before_fence not_ws_tick 1)
  have 3: "greedy_star is_word
             (greedy_star is_ws (greedy_opt is_nl (lazy_any fence_close []))) (mid @ fence)
             = Some (trim_end ?b)"
    by (rule greedy_star_first) (simp add: dropWhile_before_fence not_word_tick 2)
  show ?thesis unfolding fence_match_def by (simp add: lit_append 3)
qed

text \<open>Whatever a piece of the pattern accepts, its continuation accepted on a suffix.\<close>

lemma greedy_star_Some:
  "greedy_star p k s = Some r \<Longrightarrow> \<exists>u t. s = u @ t \<and> k t = Some r"
proof (induction s)
  case Nil
  then have "[] = [] @ [] \<and> k [] = Some r" by simp
  then show ?case by (intro exI)
next
  case (Cons c cs)
  show ?case
  proof (cases "p c \<and> greedy_star p k cs = Some r")
    case True
    with Cons.IH obtain u t where "cs = u @ t" "k t = Some r" by blast
    then have "c # cs = (c # u) @ t \<and> k t = Some r" by simp
    then show ?thesis by (intro exI)
  next
    case False
    have "k (c # cs) = Some r"
    proof (cases "p c")
      case True
      with False have "greedy_star p k cs \<noteq> Some r" by simp
      with Cons.prems True show ?thesis by (cases "greedy_star p k cs") simp_all
    next
      case False
      with Cons.prems show ?thesis by simp
    qed
    then have "c # cs = [] @ (c # cs) \<and> k (c # cs) = Some r" by simp
    then show ?thesis by (intro exI)
  qed
qed

lemma greedy_opt_Some:
  assumes "greedy_opt p k s = Some r"
  shows "\<exists>u t. s = u @ t \<and> k t = Some r"
proof (cases s)
  case Nil
  with assms have "s = [] @ [] \<and> k [] = Some r" by simp
  then show ?thesis by (intro exI)
next
  case (Cons c cs)
  show ?thesis
  proof (cases "p c \<and> k cs = Some r")
    case True
    then have "s = [c] @ cs \<and> k cs = Some r" using Cons by simp
    then show ?thesis by (intro exI)
  next
    case False
    have "k s = Some r"
    proof (cases "p c")
      case True
      with False have "k cs \<noteq> Some r" by simp
      with assms Cons True show ?thesis by (cases "k cs") simp_all
    next
      case False
      with assms Cons show ?thesis by simp
    qed
    then have "s = [] @ s \<and> k s = Some r" by simp
    then show ?thesis by (intro exI)
  qed
qed

lemma lazy_any_Some:
  "lazy_any k acc s = Some r \<Longrightarrow> \<exists>u t g. s = u @ t \<and> k g t = Some r"
proof (induction s arbitrary: acc)
  case Nil
  then have "[] = [] @ [] \<and> k (rev acc) [] = Some r" by simp
  then show ?case by (intro exI)
next
  case (Cons c cs)
  show ?case
  proof (cases "k (rev acc) (c # cs)")
    case (Some a)
    with Cons.prems have "c # cs = [] @ (c # cs) \<and> k (rev acc) (c # cs) = Some r" by simp
    then show ?thesis by (intro exI)
  next
    case None
    with Cons.prems have "lazy_any k (c # acc) cs = Some r" by simp
    then have "\<exists>u t g. cs = u @ t \<and> k g t = Some r" by (rule Cons.IH)
    then obtain u t g where "cs = u @ t" "k g t = Some r" by (elim exE conjE)
    then have "c # cs = (c # u) @ t \<and> k g t = Some r" by simp
    then show ?thesis by (intro exI)
  qed
qed

lemma lit_Some:
  assumes "lit p k s = Some r"
  shows "\<exists>t. s = p @ t \<and> k t = Some r"
proof -
  from assms have t: "take (length p) s = p" and k: "k (drop (length p) s) = Some r"
    by (simp_all add: lit_def split: if_splits)
  have "s = take (length p) s @ drop (length p) s" by simp
  with t have "s = p @ drop (length p) s" by simp
  with k have "s = p @ drop (length p) s \<and> k (drop (length p) s) = Some r" by simp
  then show ?thesis by (intro exI)
qed

lemma fence_close_Some:
  assumes "fence_close g t = Some r"
  shows "\<exists>w. t = w @ fence"
proof -
  from assms have "dropWhile is_ws t = fence" by (simp add: fence_close_eq split: if_splits)
  then have "t = takeWhile is_ws t @ fence" by (metis takeWhile_dropWhile_id)
  then show ?thesis ..
qed

text \<open>The pattern matches only a text between two fences.\<close>

lemma fence_match_Some:
  assumes "fence_match s = Some g"
  shows "\<exists>mid. s = fence @ mid @ fence"
proof -
  from assms have "lit fence (greedy_star is_word
      (greedy_star is_ws (greedy_opt is_nl (lazy_any fence_close [])))) s = Some g"
    by (simp add: fence_match_def)
  then obtain s1 where 1: "s = fence @ s1"
    and a: "greedy_star is_word
           (greedy_star is_ws (greedy_opt is_nl (lazy_any fence_close []))) s1 = Some g"
    by (auto dest!: lit_Some)
  from greedy_star_Some [OF a] obtain u2 s2 where 2: "s1 = u2 @ s2"
    and b: "greedy_star is_ws (greedy_opt is_nl (lazy_any fence_close [])) s2 = Some g"
    by (elim exE conjE)
  from greedy_star_Some [OF b] obtain u3 s3 where 3: "s2 = u3 @ s3"
    and c: "greedy_opt is_nl (lazy_any fence_close []) s3 = Some g"
    by (elim exE conjE)
  from greedy_opt_Some [OF c] obtain u4 s4 where 4: "s3 = u4 @ s4"
    and d: "lazy_any fence_close [] s4 = Some g"
    by (elim exE conjE)
  from lazy_any_Some [OF d] obtain u5 s5 g' where 5: "s4 = u5 @ s5"
    and e: "fence_close g' s5 = Some g"
    by (elim exE conjE)
  from fence_close_Some [OF e] obtain w where 6: "s5 = w @ fence" by (elim exE)
  have "s = fence @ (u2 @ u3 @ u4 @ u5 @ w) @ fence" using 1 2 3 4 5 6 by simp
  then show ?thesis ..
qed

lemma fence_match_None:
  "\<not> (\<exists>mid. s = fence @ mid @ fence) \<Longrightarrow> fence_match s = None"
  using fence_match_Some by (cases "fence_match s") auto

section \<open>The proxied service: results\<close>

lemma truthy_or_else: "truthy (Some b) \<Longrightarrow> truthy (Some (or_else a b))"
  by (cases a) (auto simp: or_else_def)

lemma or_else_truthy: "truthy (Some v) \<Longrightarrow> or_else (Some v) b = v"
  by (simp add: or_else_def)

lemma lookup_error_object:
  "lookup (error_object e m) (ascii ''error'') = Some e"
  "lookup (error_object e m) (ascii ''message'') = Some m"
  by (simp_all add: error_object_def ascii_eq_iff)

lemma error_object_not_null: "error_object e m \<noteq> JNull"
  by (simp add: error_object_def)

lemma failed_with_status_nonempty: "failed_with_status r \<noteq> []"
  by (simp add: failed_with_status_def ascii_Nil_iff)

lemma identifyImage_resolves: "\<exists>result. identifyImage P fetch imageFile = Inr result"
  by (cases "identifyImage_try P fetch imageFile") (simp_all add: identifyImage_def)

lemma identifyImage_caught:
  "identifyImage_try P fetch imageFile = Inl e \<Longrightarrow>
   identifyImage P fetch imageFile =
     Inr (error_object (JStr (ascii ''Client-Side Error''))
       (JStr (message_or
         (ascii ''An unexpected error occurred while communicating with the identification service.'') e)))"
  by (simp add: identifyImage_def)

lemma shows_error_object: "truthy (Some e) \<Longrightarrow> shows_error (error_object e m)"
  by (simp add: shows_error_def lookup_error_object)

text \<open>
  Claim C6. When the server answers with a status outside 200 to 299 and a body that does
  not parse as JSON, the proxied \<open>identifyImage\<close> resolves to the error result with
  error code "Network Error" and the message "Request failed with status " followed by
  the status.
\<close>

theorem C6_network_error:
  assumes "fileToBase64 imageFile = Inr b"
    and "fetch (identify_request P b imageFile) = Responded response"
    and "\<not> ok response"
    and "JSON_parse P (text_of response) = Inl m"
  shows "identifyImage P fetch imageFile =
     Inr (error_object (JStr (ascii ''Network Error''))
       (JStr (ascii ''Request failed with status '' @ decimal (status response))))"
proof -
  have "identifyImage_try P fetch imageFile =
     Inr (error_object (JStr (ascii ''Network Error'')) (JStr (failed_with_status response)))"
    using assms
    by (simp add: identifyImage_try_def response_json_def parse_def read_prop_def
        lookup_error_object error_object_not_null or_else_truthy ascii_Nil_iff
        failed_with_status_nonempty)
  then show ?thesis by (simp add: identifyImage_def failed_with_status_def)
qed

text \<open>The example of the specification: status 503 and a body that is not JSON.\<close>

lemma fileToBase64_png: "fileToBase64 png_file = Inr (ascii ''aGk='')"
  by (simp add: fileToBase64_def png_file_def index_def ascii_Cons ascii_Nil)

lemma sample_parse_unavailable:
  "JSON_parse sample (ascii ''Service Unavailable'') =
     Inl (ascii ''Unexpected token S in JSON at position 0'')"
  by (simp add: sample_def sample_parse_def mango_text_def unable_text_def numeric_body_text_def
      png_body_text_def ascii_eq_iff ascii_Nil_iff ascii_Cons ascii_Nil)

theorem C6_witness:
  "fileToBase64 png_file = Inr (ascii ''aGk='') \<and>
   \<not> ok \<lparr>status = 503, text_of = ascii ''Service Unavailable''\<rparr> \<and>
   JSON_parse sample (ascii ''Service Unavailable'') =
     Inl (ascii ''Unexpected token S in JSON at position 0'') \<and>
   identifyImage sample (responds \<lparr>status = 503, text_of = ascii ''Service Unavailable''\<rparr>) png_file =
     Inr (error_object (JStr (ascii ''Network Error''))
       (JStr (ascii ''Request failed with status 503'')))"
proof -
  have d: "decimal 503 = ascii ''503''" by (simp add: decimal.simps ascii_Cons ascii_Nil)
  have a: "ascii ''Request failed with status '' @ ascii ''503'' = ascii ''Request failed with status 503''"
    by (simp add: ascii_def)
  show ?thesis
    using C6_network_error [of png_file "ascii ''aGk=''"
      "responds \<lparr>status = 503, text_of = ascii ''Service Unavailable''\<rparr>" sample
      "\<lparr>status = 503, text_of = ascii ''Service Unavailable''\<rparr>"
      "ascii ''Unexpected token S in JSON at position 0''"]
    by (simp add: fileToBase64_png sample_parse_unavailable responds_def ok_def d a)
qed

text \<open>
  Claim C7. When the server answers with a status from 200 to 299 and a body that parses
  as JSON, the proxied \<open>identifyImage\<close> resolves to the parsed body, unchanged.
\<close>

theorem C7_success_passthrough:
  assumes "fileToBase64 imageFile = Inr b"
    and "fetch (identify_request P b imageFile) = Responded response"
    and "ok response"
    and "JSON_parse P (text_of response) = Inr v"
  shows "identifyImage P fetch imageFile = Inr v"
  using assms
  by (simp add: identifyImage_def identifyImage_try_def response_json_def parse_def)

text \<open>
  The example of the specification: status 200 and the Mango body. The result is the Mango
  object, which both pages show as an identification.
\<close>

lemma sample_parse_mango: "JSON_parse sample mango_text = Inr mango"
  by (simp add: sample_def sample_parse_def)

lemma mango_is_success: "\<not> shows_error mango \<and> \<not> isIdentificationError mango"
  by (simp add: shows_error_def isIdentificationError_def mango_def ascii_eq_iff)

theorem C7_witness:
  "fileToBase64 png_file = Inr (ascii ''aGk='') \<and>
   ok \<lparr>status = 200, text_of = mango_text\<rparr> \<and>
   JSON_parse sample mango_text = Inr mango \<and>
   identifyImage sample (responds \<lparr>status = 200, text_of = mango_text\<rparr>) png_file = Inr mango \<and>
   \<not> shows_error mango \<and> \<not> isIdentificationError mango"
  using C7_success_passthrough [of png_file "ascii ''aGk=''"
      "responds \<lparr>status = 200, text_of = mango_text\<rparr>" sample
      "\<lparr>status = 200, text_of = mango_text\<rparr>" mango]
  by (simp add: fileToBase64_png sample_parse_mango responds_def ok_def mango_is_success)

text \<open>What the \<open>try\<close> block throws, and what the \<open>catch\<close> makes of it.\<close>

lemma try_encoder_fails:
  "fileToBase64 imageFile = Inl e \<Longrightarrow> identifyImage_try P fetch imageFile = Inl e"
  by (simp add: identifyImage_try_def)

lemma try_fetch_rejects:
  "fileToBase64 imageFile = Inr b \<Longrightarrow> fetch (identify_request P b imageFile) = Rejected e \<Longrightarrow>
   identifyImage_try P fetch imageFile = Inl e"
  by (simp add: identifyImage_try_def)

lemma try_unparsable_success:
  "fileToBase64 imageFile = Inr b \<Longrightarrow> fetch (identify_request P b imageFile) = Responded r \<Longrightarrow>
   ok r \<Longrightarrow> JSON_parse P (text_of r) = Inl m \<Longrightarrow>
   identifyImage_try P fetch imageFile = Inl (Error_instance (ascii ''SyntaxError'') m)"
  by (simp add: identifyImage_try_def response_json_def parse_def)

lemma caught_shows_error:
  "identifyImage_try P fetch imageFile = Inl e \<Longrightarrow>
   \<exists>result. identifyImage P fetch imageFile = Inr result \<and> shows_error result"
  by (simp add: identifyImage_caught shows_error_object ascii_Nil_iff)

lemma not_ok_shows_error:
  assumes "fileToBase64 imageFile = Inr b"
    and "fetch (identify_request P b imageFile) = Responded r"
    and "\<not> ok r"
  shows "\<exists>result. identifyImage P fetch imageFile = Inr result \<and> shows_error result"
proof (cases "identifyImage_try P fetch imageFile")
  case (Inl e)
  then show ?thesis by (rule caught_shows_error)
next
  case (Inr v)
  let ?errorData = "case response_json P r of
       Inl _ \<Rightarrow> error_object (JStr (ascii ''Network Error'')) (JStr (failed_with_status r))
     | Inr v \<Rightarrow> v"
  from Inr assms have "v = error_object
      (or_else (lookup ?errorData (ascii ''error'')) (JStr (ascii ''API Error'')))
      (or_else (lookup ?errorData (ascii ''message'')) (JStr (failed_with_status r)))"
    by (auto simp: identifyImage_try_def read_prop_def Let_def split: if_splits)
  then have "shows_error v"
    by (simp add: shows_error_object truthy_or_else ascii_Nil_iff)
  with Inr show ?thesis by (simp add: identifyImage_def)
qed

text \<open>
  Claim C4. The promise of the proxied \<open>identifyImage\<close> always resolves. When
  \<open>fetch\<close> throws, the result is the error result with error code "Client-Side Error"
  and the message of the thrown \<open>Error\<close>, or the generic message when what was thrown is
  not an \<open>Error\<close>. Every failure (the encoder fails, \<open>fetch\<close> throws, the status is
  outside 200 to 299, the body of a 2xx answer does not parse) resolves to a result that
  the page shows as an error.
\<close>

theorem C4_never_rejects:
  "(\<exists>result. identifyImage P fetch imageFile = Inr result) \<and>
   (fileToBase64 imageFile = Inr b \<and> fetch (identify_request P b imageFile) = Rejected e \<longrightarrow>
      identifyImage P fetch imageFile =
        Inr (error_object (JStr (ascii ''Client-Side Error''))
          (JStr (case e of
             Error_instance n m \<Rightarrow> m
           | Other_value \<Rightarrow>
               ascii ''An unexpected error occurred while communicating with the identification service.'')))) \<and>
   ((fileToBase64 imageFile = Inl e \<or>
     fileToBase64 imageFile = Inr b \<and>
       (fetch (identify_request P b imageFile) = Rejected e \<or>
        fetch (identify_request P b imageFile) = Responded r \<and>
          (\<not> ok r \<or> JSON_parse P (text_of r) = Inl m'))) \<longrightarrow>
      (\<exists>result. identifyImage P fetch imageFile = Inr result \<and> shows_error result))"
proof (intro conjI impI)
  show "\<exists>result. identifyImage P fetch imageFile = Inr result"
    by (rule identifyImage_resolves)
next
  assume "fileToBase64 imageFile = Inr b \<and> fetch (identify_request P b imageFile) = Rejected e"
  then have "identifyImage_try P fetch imageFile = Inl e" by (simp add: try_fetch_rejects)
  then show "identifyImage P fetch imageFile =
        Inr (error_object (JStr (ascii ''Client-Side Error''))
          (JStr (case e of
             Error_instance n m \<Rightarrow> m
           | Other_value \<Rightarrow>
               ascii ''An unexpected error occurred while communicating with the identification service.'')))"
    by (cases e) (simp_all add: identifyImage_caught)
next
  assume h: "fileToBase64 imageFile = Inl e \<or>
     fileToBase64 imageFile = Inr b \<and>
       (fetch (identify_request P b imageFile) = Rejected e \<or>
        fetch (identify_request P b imageFile) = Responded r \<and>
          (\<not> ok r \<or> JSON_parse P (text_of r) = Inl m'))"
  show "\<exists>result. identifyImage P fetch imageFile = Inr result \<and> shows_error result"
  proof (cases "fileToBase64 imageFile")
    case (Inl a)
    from try_encoder_fails [where fetch = fetch and P = P, OF this] show ?thesis by (rule caught_shows_error)
  next
    case (Inr a)
    with h have b: "fileToBase64 imageFile = Inr b" and
      f: "fetch (identify_request P b imageFile) = Rejected e \<or>
        fetch (identify_request P b imageFile) = Responded r \<and>
          (\<not> ok r \<or> JSON_parse P (text_of r) = Inl m')" by simp_all
    show ?thesis
    proof (cases "fetch (identify_request P b imageFile)")
      case (Rejected x)
      from try_fetch_rejects [where fetch = fetch and P = P, OF b this] show ?thesis by (rule caught_shows_error)
    next
      case (Responded x)
      with f have r: "fetch (identify_request P b imageFile) = Responded r"
        and o: "\<not> ok r \<or> JSON_parse P (text_of r) = Inl m'" by simp_all
      show ?thesis
      proof (cases "ok r")
        case True
        with o have "JSON_parse P (text_of r) = Inl m'" by simp
        from try_unparsable_success [where fetch = fetch and P = P, OF b r True this] show ?thesis
          by (rule caught_shows_error)
      next
        case False
        from not_ok_shows_error [where fetch = fetch and P = P, OF b r this] show ?thesis .
      qed
    qed
  qed
qed

theorem C4_witness:
  "fileToBase64 png_file = Inr (ascii ''aGk='') \<and>
   rejects (Error_instance (ascii ''TypeError'') (ascii ''Failed to fetch''))
     (identify_request sample (ascii ''aGk='') png_file) =
     Rejected (Error_instance (ascii ''TypeError'') (ascii ''Failed to fetch'')) \<and>
   identifyImage sample (rejects (Error_instance (ascii ''TypeError'') (ascii ''Failed to fetch'')))
     png_file =
     Inr (error_object (JStr (ascii ''Client-Side Error'')) (JStr (ascii ''Failed to fetch''))) \<and>
   shows_error (error_object (JStr (ascii ''Client-Side Error'')) (JStr (ascii ''Failed to fetch'')))"
  using C4_never_rejects [of sample
      "rejects (Error_instance (ascii ''TypeError'') (ascii ''Failed to fetch''))" png_file
      "ascii ''aGk=''" "Error_instance (ascii ''TypeError'') (ascii ''Failed to fetch'')"]
  by (simp add: fileToBase64_png rejects_def shows_error_object ascii_Nil_iff)


text \<open>A file whose data URL has nothing after the comma.\<close>

lemma fileToBase64_empty:
  "fileToBase64 empty_file =
     Inl (Error_instance (ascii ''Error'') (ascii ''Failed to read base64 string from file.''))"
  by (simp add: fileToBase64_def empty_file_def index_def ascii_Cons ascii_Nil)

text \<open>
  Claim C9 as stated fails: on an empty payload the encoder rejects with a plain \<open>Error\<close>,
  not an \<open>EncodingError\<close>, and the caller sees the error code "Client-Side Error".
\<close>

theorem C9_counterexample:
  "fileToBase64 empty_file =
     Inl (Error_instance (ascii ''Error'') (ascii ''Failed to read base64 string from file.'')) \<and>
   \<not> spec_is_EncodingError
     (Error_instance (ascii ''Error'') (ascii ''Failed to read base64 string from file.'')) \<and>
   identifyImage sample (responds \<lparr>status = 200, text_of = mango_text\<rparr>) empty_file =
     Inr (error_object (JStr (ascii ''Client-Side Error''))
       (JStr (ascii ''Failed to read base64 string from file.''))) \<and>
   ascii ''Client-Side Error'' \<noteq> ascii ''EncodingError''"
  by (simp add: fileToBase64_empty identifyImage_def identifyImage_try_def ascii_eq_iff)

text \<open>
  Claim C9, amended. When the file cannot be read, or its data URL has no second piece or
  an empty one, the encoder rejects (with the reader's event, or with the \<open>Error\<close>
  "Failed to read base64 string from file."), and the proxied \<open>identifyImage\<close> resolves to
  the error result with error code "Client-Side Error" and the generic message, or the
  message of that \<open>Error\<close>.
\<close>

theorem C9_encoder_failure:
  assumes "reader imageFile = Failed \<or>
     (\<exists>result. reader imageFile = Loaded result \<and>
        (index (split 0x2C result) 1 = None \<or> index (split 0x2C result) 1 = Some []))"
  shows "fileToBase64 imageFile =
       Inl (if reader imageFile = Failed then Other_value
            else Error_instance (ascii ''Error'')
                   (ascii ''Failed to read base64 string from file.'')) \<and>
     identifyImage P fetch imageFile =
       Inr (error_object (JStr (ascii ''Client-Side Error''))
         (JStr (if reader imageFile = Failed
                then ascii ''An unexpected error occurred while communicating with the identification service.''
                else ascii ''Failed to read base64 string from file.'')))"
proof -
  have e: "fileToBase64 imageFile =
       Inl (if reader imageFile = Failed then Other_value
            else Error_instance (ascii ''Error'')
                   (ascii ''Failed to read base64 string from file.''))"
    using assms by (auto simp: fileToBase64_def)
  from try_encoder_fails [where fetch = fetch and P = P, OF e]
  have "identifyImage P fetch imageFile =
     Inr (error_object (JStr (ascii ''Client-Side Error''))
       (JStr (message_or
         (ascii ''An unexpected error occurred while communicating with the identification service.'')
         (if reader imageFile = Failed then Other_value
            else Error_instance (ascii ''Error'')
                   (ascii ''Failed to read base64 string from file.'')))))"
    by (rule identifyImage_caught)
  with e show ?thesis by simp
qed

theorem C9_witness:
  "reader unreadable_file = Failed \<and>
   fileToBase64 unreadable_file = Inl Other_value \<and>
   identifyImage sample (responds \<lparr>status = 200, text_of = mango_text\<rparr>) unreadable_file =
     Inr (error_object (JStr (ascii ''Client-Side Error''))
       (JStr (ascii ''An unexpected error occurred while communicating with the identification service.'')))"
  using C9_encoder_failure [of unreadable_file sample
      "responds \<lparr>status = 200, text_of = mango_text\<rparr>"]
  by (simp add: unreadable_file_def)

section \<open>The proxy handler: results\<close>

lemmas sample_texts =
  mango_text_def unable_text_def numeric_body_text_def png_body_text_def empty_fence_text_def

lemma sample_parse_numeric: "JSON_parse sample numeric_body_text = Inr numeric_body"
  by (simp add: sample_def sample_parse_def sample_texts ascii_eq_iff)

lemma sample_parse_png: "JSON_parse sample png_body_text = Inr png_body"
  by (simp add: sample_def sample_parse_def sample_texts ascii_eq_iff)

text \<open>The fields of a reply.\<close>

lemma reply_simps:
  "statusCode (reply P code v) = code"
  "body (reply P code v) = JSON_stringify P v"
  "headers (reply P code v) = [(ascii ''Content-Type'', ascii ''application/json'')]"
  by (simp_all add: reply_def)

lemma identify_try_Inr:
  "identify_try P generateContent key parsed = Inr r \<Longrightarrow> \<exists>v. r = reply P 200 v"
  by (auto simp: identify_try_def respond_parsed_def split: gen_outcome.splits option.splits sum.splits)

text \<open>Every answer of the handler is one of five replies.\<close>

lemma handler_replies:
  "\<exists>code v. handler P API_KEY generateContent ev = Inr (reply P code v) \<and>
     (code = 200 \<or>
      (code = 400 \<or> code = 405 \<or> code = 500) \<and>
      (\<exists>e m. v = error_object (JStr e) (JStr m) \<and> e \<noteq> []))"
proof (cases "httpMethod ev \<noteq> ascii ''POST''")
  case True
  then have "handler P API_KEY generateContent ev =
      Inr (reply P 405 (error_object (JStr (ascii ''Method Not Allowed''))
               (JStr (ascii ''Only POST requests are accepted.''))))"
    by (simp add: handler_def)
  moreover have "ascii ''Method Not Allowed'' \<noteq> []" by (simp add: ascii_Nil_iff)
  ultimately show ?thesis by blast
next
  case post: False
  show ?thesis
  proof (cases "API_KEY = None \<or> API_KEY = Some []")
    case True
    with post have "handler P API_KEY generateContent ev =
      Inr (reply P 500 (error_object (JStr (ascii ''Configuration Error''))
                    (JStr (ascii ''API Key is not configured on the server.''))))"
      by (auto simp: handler_def)
    moreover have "ascii ''Configuration Error'' \<noteq> []" by (simp add: ascii_Nil_iff)
    ultimately show ?thesis by blast
  next
    case False
    then obtain key where key: "API_KEY = Some key" "key \<noteq> []" by auto
    show ?thesis
    proof (cases "request_body P ev")
      case (Inl error)
      with post key have "handler P API_KEY generateContent ev =
        Inr (reply P 400 (error_object (JStr (ascii ''Bad Request''))
                           (JStr (message_or (ascii ''Invalid request body.'') error))))"
        by (simp add: handler_def)
      moreover have "ascii ''Bad Request'' \<noteq> []" by (simp add: ascii_Nil_iff)
      ultimately show ?thesis by blast
    next
      case (Inr parsed)
      show ?thesis
      proof (cases "identify_try P generateContent key parsed")
        case (Inl error)
        with post key Inr have "handler P API_KEY generateContent ev =
          Inr (reply P 500 (error_object (JStr (ascii ''AI Service Error''))
                                (JStr (message_or
                                   (ascii ''An unexpected error occurred during identification with the AI model.'')
                                   error))))"
          by (simp add: handler_def)
        moreover have "ascii ''AI Service Error'' \<noteq> []" by (simp add: ascii_Nil_iff)
        ultimately show ?thesis by blast
      next
        case r: (Inr r)
        then obtain v where "r = reply P 200 v" using identify_try_Inr by blast
        with post key Inr r have "handler P API_KEY generateContent ev = Inr (reply P 200 v)"
          by (simp add: handler_def)
        then show ?thesis by blast
      qed
    qed
  qed
qed


lemma lo_nonempty:
  "lo_method_not_allowed \<noteq> []" "lo_configuration_error \<noteq> []"
  "lo_bad_request \<noteq> []" "lo_ai_service_error \<noteq> []"
  by (simp_all add: lo_method_not_allowed_def lo_configuration_error_def lo_bad_request_def
      lo_ai_service_error_def)

lemma handler_lo_replies:
  "\<exists>code v. handler_lo P API_KEY generateContent ev = Inr (reply P code v) \<and>
     (code = 200 \<or>
      (code = 400 \<or> code = 405 \<or> code = 500) \<and>
      (\<exists>e m. v = error_object (JStr e) (JStr m) \<and> e \<noteq> []))"
proof (cases "httpMethod ev \<noteq> ascii ''POST''")
  case True
  then have "handler_lo P API_KEY generateContent ev =
      Inr (reply P 405 (error_object (JStr lo_method_not_allowed) (JStr lo_only_post)))"
    by (simp add: handler_lo_def)
  with lo_nonempty(1) show ?thesis by blast
next
  case post: False
  show ?thesis
  proof (cases "API_KEY = None \<or> API_KEY = Some []")
    case True
    with post have "handler_lo P API_KEY generateContent ev =
      Inr (reply P 500 (error_object (JStr lo_configuration_error) (JStr lo_key_not_configured)))"
      by (auto simp: handler_lo_def)
    with lo_nonempty(2) show ?thesis by blast
  next
    case False
    then obtain key where key: "API_KEY = Some key" "key \<noteq> []" by auto
    show ?thesis
    proof (cases "request_body_lo P ev")
      case (Inl error)
      with post key have "handler_lo P API_KEY generateContent ev =
        Inr (reply P 400 (error_object (JStr lo_bad_request)
                           (JStr (message_or lo_invalid_body error))))"
        by (simp add: handler_lo_def)
      with lo_nonempty(3) show ?thesis by blast
    next
      case (Inr parsed)
      show ?thesis
      proof (cases "identify_try P generateContent key parsed")
        case (Inl error)
        with post key Inr have "handler_lo P API_KEY generateContent ev =
          Inr (reply P 500 (error_object (JStr lo_ai_service_error)
                                (JStr (message_or lo_unexpected_ai error))))"
          by (simp add: handler_lo_def)
        with lo_nonempty(4) show ?thesis by blast
      next
        case r: (Inr r)
        then obtain v where "r = reply P 200 v" using identify_try_Inr by blast
        with post key Inr r have "handler_lo P API_KEY generateContent ev = Inr (reply P 200 v)"
          by (simp add: handler_lo_def)
        then show ?thesis by blast
      qed
    qed
  qed
qed

text \<open>What the claim asks of a reply.\<close>

lemma reply_well_formed:
  assumes "code = 200 \<or>
      (code = 400 \<or> code = 405 \<or> code = 500) \<and>
      (\<exists>e m. v = error_object (JStr e) (JStr m) \<and> e \<noteq> [])"
  shows "statusCode (reply P code v) \<in> {200, 400, 405, 500} \<and>
     headers (reply P code v) = [(ascii ''Content-Type'', ascii ''application/json'')] \<and>
     (\<exists>w. body (reply P code v) = JSON_stringify P w \<and>
        (statusCode (reply P code v) \<noteq> 200 \<longrightarrow>
           (\<exists>e. lookup w (ascii ''error'') = Some (JStr e) \<and> e \<noteq> [])))"
proof -
  have e: "code \<noteq> 200 \<longrightarrow> (\<exists>e. lookup v (ascii ''error'') = Some (JStr e) \<and> e \<noteq> [])"
  proof
    assume "code \<noteq> 200"
    with assms obtain e m where "v = error_object (JStr e) (JStr m)" "e \<noteq> []" by blast
    then have "lookup v (ascii ''error'') = Some (JStr e) \<and> e \<noteq> []"
      by (simp add: lookup_error_object)
    then show "\<exists>e. lookup v (ascii ''error'') = Some (JStr e) \<and> e \<noteq> []" ..
  qed
  have "body (reply P code v) = JSON_stringify P v \<and>
        (statusCode (reply P code v) \<noteq> 200 \<longrightarrow>
           (\<exists>e. lookup v (ascii ''error'') = Some (JStr e) \<and> e \<noteq> []))"
    unfolding reply_simps using e by blast
  then have w: "\<exists>w. body (reply P code v) = JSON_stringify P w \<and>
        (statusCode (reply P code v) \<noteq> 200 \<longrightarrow>
           (\<exists>e. lookup w (ascii ''error'') = Some (JStr e) \<and> e \<noteq> []))"
    by (intro exI [where x = v])
  from assms have "code = 200 \<or> code = 400 \<or> code = 405 \<or> code = 500" by blast
  then have c: "statusCode (reply P code v) \<in> {200, 400, 405, 500}"
    unfolding reply_simps by blast
  have h: "headers (reply P code v) = [(ascii ''Content-Type'', ascii ''application/json'')]"
    by (rule reply_simps)
  from c h w show ?thesis by (intro conjI)
qed

text \<open>
  Claim C10. For every event, key and model, the handler (in both revisions) returns a
  response and does not throw. The status is 200, 400, 405 or 500, the only header is
  Content-Type: application/json, the body is what \<open>JSON.stringify\<close> made of a value,
  and unless the status is 200 that value has a field \<open>error\<close> holding a non-empty
  string.
\<close>

theorem C10_handler_always_answers:
  "(\<exists>r. handler P API_KEY generateContent ev = Inr r \<and>
      statusCode r \<in> {200, 400, 405, 500} \<and>
      headers r = [(ascii ''Content-Type'', ascii ''application/json'')] \<and>
      (\<exists>w. body r = JSON_stringify P w \<and>
         (statusCode r \<noteq> 200 \<longrightarrow>
            (\<exists>e. lookup w (ascii ''error'') = Some (JStr e) \<and> e \<noteq> [])))) \<and>
   (\<exists>r. handler_lo P API_KEY generateContent ev = Inr r \<and>
      statusCode r \<in> {200, 400, 405, 500} \<and>
      headers r = [(ascii ''Content-Type'', ascii ''application/json'')] \<and>
      (\<exists>w. body r = JSON_stringify P w \<and>
         (statusCode r \<noteq> 200 \<longrightarrow>
            (\<exists>e. lookup w (ascii ''error'') = Some (JStr e) \<and> e \<noteq> []))))"
proof
  from handler_replies [of P API_KEY generateContent ev] obtain code v
    where h: "handler P API_KEY generateContent ev = Inr (reply P code v)"
      and c: "code = 200 \<or>
      (code = 400 \<or> code = 405 \<or> code = 500) \<and>
      (\<exists>e m. v = error_object (JStr e) (JStr m) \<and> e \<noteq> [])"
    by (elim exE conjE)
  from h reply_well_formed [OF c, of P]
  have "handler P API_KEY generateContent ev = Inr (reply P code v) \<and>
      statusCode (reply P code v) \<in> {200, 400, 405, 500} \<and>
      headers (reply P code v) = [(ascii ''Content-Type'', ascii ''application/json'')] \<and>
      (\<exists>w. body (reply P code v) = JSON_stringify P w \<and>
         (statusCode (reply P code v) \<noteq> 200 \<longrightarrow>
            (\<exists>e. lookup w (ascii ''error'') = Some (JStr e) \<and> e \<noteq> [])))"
    by (rule conjI)
  then show "\<exists>r. handler P API_KEY generateContent ev = Inr r \<and>
      statusCode r \<in> {200, 400, 405, 500} \<and>
      headers r = [(ascii ''Content-Type'', ascii ''application/json'')] \<and>
      (\<exists>w. body r = JSON_stringify P w \<and>
         (statusCode r \<noteq> 200 \<longrightarrow>
            (\<exists>e. lookup w (ascii ''error'') = Some (JStr e) \<and> e \<noteq> [])))"
    by (intro exI [where x = "reply P code v"])
next
  from handler_lo_replies [of P API_KEY generateContent ev] obtain code v
    where h: "handler_lo P API_KEY generateContent ev = Inr (reply P code v)"
      and c: "code = 200 \<or>
      (code = 400 \<or> code = 405 \<or> code = 500) \<and>
      (\<exists>e m. v = error_object (JStr e) (JStr m) \<and> e \<noteq> [])"
    by (elim exE conjE)
  from h reply_well_formed [OF c, of P]
  have "handler_lo P API_KEY generateContent ev = Inr (reply P code v) \<and>
      statusCode (reply P code v) \<in> {200, 400, 405, 500} \<and>
      headers (reply P code v) = [(ascii ''Content-Type'', ascii ''application/json'')] \<and>
      (\<exists>w. body (reply P code v) = JSON_stringify P w \<and>
         (statusCode (reply P code v) \<noteq> 200 \<longrightarrow>
            (\<exists>e. lookup w (ascii ''error'') = Some (JStr e) \<and> e \<noteq> [])))"
    by (rule conjI)
  then show "\<exists>r. handler_lo P API_KEY generateContent ev = Inr r \<and>
      statusCode r \<in> {200, 400, 405, 500} \<and>
      headers r = [(ascii ''Content-Type'', ascii ''application/json'')] \<and>
      (\<exists>w. body r = JSON_stringify P w \<and>
         (statusCode r \<noteq> 200 \<longrightarrow>
            (\<exists>e. lookup w (ascii ''error'') = Some (JStr e) \<and> e \<noteq> [])))"
    by (intro exI [where x = "reply P code v"])
qed

text \<open>A GET request, answered 405 by both revisions.\<close>

lemma handler_get:
  "handler sample None (answers mango_text) get_event =
     Inr (reply sample 405 (error_object (JStr (ascii ''Method Not Allowed''))
       (JStr (ascii ''Only POST requests are accepted.''))))"
  by (simp add: handler_def get_event_def ascii_eq_iff)

lemma handler_lo_get:
  "handler_lo sample None (answers mango_text) get_event =
     Inr (reply sample 405 (error_object (JStr lo_method_not_allowed) (JStr lo_only_post)))"
  by (simp add: handler_lo_def get_event_def ascii_eq_iff)

theorem C10_witness:
  "(\<exists>r. handler sample None (answers mango_text) get_event = Inr r \<and>
      statusCode r = 405 \<and>
      headers r = [(ascii ''Content-Type'', ascii ''application/json'')] \<and>
      (\<exists>w e. body r = JSON_stringify sample w \<and>
         lookup w (ascii ''error'') = Some (JStr e) \<and> e \<noteq> [])) \<and>
   (\<exists>r. handler_lo sample None (answers mango_text) get_event = Inr r \<and>
      statusCode r = 405 \<and>
      headers r = [(ascii ''Content-Type'', ascii ''application/json'')] \<and>
      (\<exists>w e. body r = JSON_stringify sample w \<and>
         lookup w (ascii ''error'') = Some (JStr e) \<and> e \<noteq> []))"
proof -
  note t = C10_handler_always_answers [of sample None "answers mango_text" get_event]
  from t [THEN conjunct1] obtain r where
    R: "handler sample None (answers mango_text) get_event = Inr r \<and>
      statusCode r \<in> {200, 400, 405, 500} \<and>
      headers r = [(ascii ''Content-Type'', ascii ''application/json'')] \<and>
      (\<exists>w. body r = JSON_stringify sample w \<and>
         (statusCode r \<noteq> 200 \<longrightarrow>
            (\<exists>e. lookup w (ascii ''error'') = Some (JStr e) \<and> e \<noteq> [])))" ..
  from R have r: "handler sample None (answers mango_text) get_event = Inr r" by (rule conjunct1)
  then have "r = reply sample 405 (error_object (JStr (ascii ''Method Not Allowed''))
       (JStr (ascii ''Only POST requests are accepted.'')))" by (simp add: handler_get)
  then have sr: "statusCode r = 405" by (simp add: reply_simps)
  from R have hr: "headers r = [(ascii ''Content-Type'', ascii ''application/json'')]" by blast
  from R sr have "\<exists>w e. body r = JSON_stringify sample w \<and>
         lookup w (ascii ''error'') = Some (JStr e) \<and> e \<noteq> []" by auto
  with r sr hr have "handler sample None (answers mango_text) get_event = Inr r \<and>
      statusCode r = 405 \<and>
      headers r = [(ascii ''Content-Type'', ascii ''application/json'')] \<and>
      (\<exists>w e. body r = JSON_stringify sample w \<and>
         lookup w (ascii ''error'') = Some (JStr e) \<and> e \<noteq> [])" by (intro conjI)
  then have 1: "\<exists>r. handler sample None (answers mango_text) get_event = Inr r \<and>
      statusCode r = 405 \<and>
      headers r = [(ascii ''Content-Type'', ascii ''application/json'')] \<and>
      (\<exists>w e. body r = JSON_stringify sample w \<and>
         lookup w (ascii ''error'') = Some (JStr e) \<and> e \<noteq> [])"
    by (intro exI [where x = r])
  from t [THEN conjunct2] obtain q where
    Q: "handler_lo sample None (answers mango_text) get_event = Inr q \<and>
      statusCode q \<in> {200, 400, 405, 500} \<and>
      headers q = [(ascii ''Content-Type'', ascii ''application/json'')] \<and>
      (\<exists>w. body q = JSON_stringify sample w \<and>
         (statusCode q \<noteq> 200 \<longrightarrow>
            (\<exists>e. lookup w (ascii ''error'') = Some (JStr e) \<and> e \<noteq> [])))" ..
  from Q have q: "handler_lo sample None (answers mango_text) get_event = Inr q" by (rule conjunct1)
  then have "q = reply sample 405 (error_object (JStr lo_method_not_allowed) (JStr lo_only_post))"
    by (simp add: handler_lo_get)
  then have sq: "statusCode q = 405" by (simp add: reply_simps)
  from Q have hq: "headers q = [(ascii ''Content-Type'', ascii ''application/json'')]" by blast
  from Q sq have "\<exists>w e. body q = JSON_stringify sample w \<and>
         lookup w (ascii ''error'') = Some (JStr e) \<and> e \<noteq> []" by auto
  with q sq hq have "handler_lo sample None (answers mango_text) get_event = Inr q \<and>
      statusCode q = 405 \<and>
      headers q = [(ascii ''Content-Type'', ascii ''application/json'')] \<and>
      (\<exists>w e. body q = JSON_stringify sample w \<and>
         lookup w (ascii ''error'') = Some (JStr e) \<and> e \<noteq> [])" by (intro conjI)
  then have 2: "\<exists>r. handler_lo sample None (answers mango_text) get_event = Inr r \<and>
      statusCode r = 405 \<and>
      headers r = [(ascii ''Content-Type'', ascii ''application/json'')] \<and>
      (\<exists>w e. body r = JSON_stringify sample w \<and>
         lookup w (ascii ''error'') = Some (JStr e) \<and> e \<noteq> [])"
    by (intro exI [where x = q])
  from 1 2 show ?thesis by (rule conjI)
qed

text \<open>
  The checks of the English revision, in order: the method, the key, the request body.
  The body check asks for truthy fields, not for strings.
\<close>

lemma handler_checks_in_order:
  "(httpMethod ev \<noteq> ascii ''POST'' \<longrightarrow>
      handler P API_KEY generateContent ev =
        Inr (reply P 405 (error_object (JStr (ascii ''Method Not Allowed''))
               (JStr (ascii ''Only POST requests are accepted.''))))) \<and>
   (httpMethod ev = ascii ''POST'' \<and> (API_KEY = None \<or> API_KEY = Some []) \<longrightarrow>
      handler P API_KEY generateContent ev =
        Inr (reply P 500 (error_object (JStr (ascii ''Configuration Error''))
               (JStr (ascii ''API Key is not configured on the server.''))))) \<and>
   (httpMethod ev = ascii ''POST'' \<and> API_KEY = Some key \<and> key \<noteq> [] \<and>
    (event_body ev = None \<or> event_body ev = Some [] \<or>
     event_body ev = Some b \<and>
       (JSON_parse P b = Inl m \<or>
        JSON_parse P b = Inr v \<and>
          (\<not> truthy (lookup v (ascii ''imageData'')) \<or>
           \<not> truthy (lookup v (ascii ''mimeType''))))) \<longrightarrow>
      (\<exists>detail. handler P API_KEY generateContent ev =
        Inr (reply P 400 (error_object (JStr (ascii ''Bad Request'')) (JStr detail)))))"
proof (intro conjI impI)
  assume "httpMethod ev \<noteq> ascii ''POST''"
  then show "handler P API_KEY generateContent ev =
        Inr (reply P 405 (error_object (JStr (ascii ''Method Not Allowed''))
               (JStr (ascii ''Only POST requests are accepted.''))))"
    by (simp add: handler_def)
next
  assume "httpMethod ev = ascii ''POST'' \<and> (API_KEY = None \<or> API_KEY = Some [])"
  then show "handler P API_KEY generateContent ev =
        Inr (reply P 500 (error_object (JStr (ascii ''Configuration Error''))
               (JStr (ascii ''API Key is not configured on the server.''))))"
    by (auto simp: handler_def)
next
  assume a: "httpMethod ev = ascii ''POST'' \<and> API_KEY = Some key \<and> key \<noteq> [] \<and>
    (event_body ev = None \<or> event_body ev = Some [] \<or>
     event_body ev = Some b \<and>
       (JSON_parse P b = Inl m \<or>
        JSON_parse P b = Inr v \<and>
          (\<not> truthy (lookup v (ascii ''imageData'')) \<or>
           \<not> truthy (lookup v (ascii ''mimeType'')))))"
  then have "\<exists>e. request_body P ev = Inl e"
    by (auto simp: request_body_def parse_def read_prop_def)
  then obtain e where "request_body P ev = Inl e" ..
  with a have "handler P API_KEY generateContent ev =
        Inr (reply P 400 (error_object (JStr (ascii ''Bad Request''))
          (JStr (message_or (ascii ''Invalid request body.'') e))))"
    by (simp add: handler_def)
  then show "\<exists>detail. handler P API_KEY generateContent ev =
        Inr (reply P 400 (error_object (JStr (ascii ''Bad Request'')) (JStr detail)))"
    by (intro exI)
qed

text \<open>
  A request whose \<open>imageData\<close> is the number 5. The English revision lets it through,
  with the number as the image data of the model call; the Lao revision answers 400.
\<close>

lemma sample_texts_nonempty: "numeric_body_text \<noteq> []" "png_body_text \<noteq> []"
  by (simp_all add: numeric_body_text_def png_body_text_def ascii_Nil_iff)

lemma numeric_body_fields:
  "numeric_body \<noteq> JNull"
  "lookup numeric_body (ascii ''imageData'') = Some (JNum (Finite 5))"
  "lookup numeric_body (ascii ''mimeType'') = Some (JStr (ascii ''image/png''))"
  by (simp_all add: numeric_body_def ascii_eq_iff)

lemma request_body_numeric: "request_body sample (post numeric_body_text) = Inr numeric_body"
  by (simp add: request_body_def post_def parse_def sample_parse_numeric read_prop_def
      numeric_body_fields sample_texts_nonempty ascii_Nil_iff)

lemma request_body_lo_numeric:
  "request_body_lo sample (post numeric_body_text) = Inl (Error_instance (ascii ''Error'') lo_missing_fields)"
  by (simp add: request_body_lo_def post_def parse_def sample_parse_numeric read_prop_def
      numeric_body_fields sample_texts_nonempty)

lemma identify_try_cases:
  "(\<exists>e. identify_try P generateContent key parsed = Inl e) \<or>
   (\<exists>v. identify_try P generateContent key parsed = Inr (reply P 200 v))"
proof (cases "identify_try P generateContent key parsed")
  case (Inl a)
  then show ?thesis by simp
next
  case (Inr r)
  with identify_try_Inr [OF Inr] show ?thesis by auto
qed

text \<open>
  Claim C5 at the body \<open>{"imageData":5,"mimeType":"image/png"}\<close>, with a key set:
  whatever the model does, the English revision answers 200 or 500 "AI Service Error",
  and not 400 "Bad Request".
\<close>

theorem C5_non_string_fields_pass:
  "(\<exists>v. handler sample (Some (ascii ''key'')) generateContent (post numeric_body_text) =
          Inr (reply sample 200 v)) \<or>
   (\<exists>m. handler sample (Some (ascii ''key'')) generateContent (post numeric_body_text) =
          Inr (reply sample 500
            (error_object (JStr (ascii ''AI Service Error'')) (JStr m))))"
proof -
  have h: "handler sample (Some (ascii ''key'')) generateContent (post numeric_body_text) =
    (case identify_try sample generateContent (ascii ''key'') numeric_body of
       Inr r \<Rightarrow> Inr r
     | Inl error \<Rightarrow>
         Inr (reply sample 500 (error_object (JStr (ascii ''AI Service Error''))
           (JStr (message_or
              (ascii ''An unexpected error occurred during identification with the AI model.'')
              error)))))"
    by (simp add: handler_def request_body_numeric ascii_Nil_iff) (simp add: post_def)
  from identify_try_cases [of sample generateContent "ascii ''key''" numeric_body]
  show ?thesis
  proof
    assume "\<exists>e. identify_try sample generateContent (ascii ''key'') numeric_body = Inl e"
    then obtain e where "identify_try sample generateContent (ascii ''key'') numeric_body = Inl e" ..
    with h have "handler sample (Some (ascii ''key'')) generateContent (post numeric_body_text) =
      Inr (reply sample 500 (error_object (JStr (ascii ''AI Service Error''))
           (JStr (message_or
              (ascii ''An unexpected error occurred during identification with the AI model.'')
              e))))" by simp
    then show ?thesis by blast
  next
    assume "\<exists>v. identify_try sample generateContent (ascii ''key'') numeric_body = Inr (reply sample 200 v)"
    then obtain v where "identify_try sample generateContent (ascii ''key'') numeric_body = Inr (reply sample 200 v)" ..
    with h have "handler sample (Some (ascii ''key'')) generateContent (post numeric_body_text) =
      Inr (reply sample 200 v)" by simp
    then show ?thesis by blast
  qed
qed

lemma C5_model_sees_number:
  "handler_request (ascii ''key'') numeric_body =
     \<lparr>apiKey = ascii ''key'', model = modelName,
      inline_mimeType = Some (JStr (ascii ''image/png'')),
      inline_data = Some (JNum (Finite 5))\<rparr>"
  by (simp add: handler_request_def numeric_body_fields)

lemma handler_lo_numeric:
  "handler_lo sample (Some (ascii ''key'')) generateContent (post numeric_body_text) =
     Inr (reply sample 400 (error_object (JStr lo_bad_request) (JStr lo_missing_fields)))"
  by (simp add: handler_lo_def request_body_lo_numeric ascii_Nil_iff) (simp add: post_def)

section \<open>Trimming and extraction: facts\<close>

lemma trim_start_id: "s = [] \<or> \<not> is_ws (hd s) \<Longrightarrow> trim_start s = s"
  by (cases s) (auto simp: trim_start_def)

lemma trim_end_id: "s = [] \<or> \<not> is_ws (last s) \<Longrightarrow> trim_end s = s"
proof -
  assume a: "s = [] \<or> \<not> is_ws (last s)"
  have "rev s = [] \<or> \<not> is_ws (hd (rev s))"
    using a by (cases "s = []") (simp_all add: hd_rev)
  then have "dropWhile is_ws (rev s) = rev s" by (cases "rev s") auto
  then show ?thesis by (simp add: trim_end_def)
qed

lemma trim_id: "s = [] \<or> \<not> is_ws (hd s) \<and> \<not> is_ws (last s) \<Longrightarrow> trim s = s"
  by (auto simp: trim_def trim_start_id trim_end_id)

lemma trim_end_ends: "trim_end s = [] \<or> \<not> is_ws (last (trim_end s))"
proof -
  have "dropWhile is_ws (rev s) = [] \<or> \<not> is_ws (hd (dropWhile is_ws (rev s)))"
    by (metis hd_dropWhile)
  then show ?thesis
    by (cases "dropWhile is_ws (rev s) = []") (simp_all add: trim_end_def last_rev)
qed

lemma trim_start_starts: "trim_start s = [] \<or> \<not> is_ws (hd (trim_start s))"
  unfolding trim_start_def by (metis hd_dropWhile)

lemma trim_end_keeps_start:
  "s = [] \<or> \<not> is_ws (hd s) \<Longrightarrow> trim_end s = [] \<or> \<not> is_ws (hd (trim_end s))"
proof (cases s)
  case Nil
  then show ?thesis by (simp add: trim_end_def)
next
  case (Cons c cs)
  assume "s = [] \<or> \<not> is_ws (hd s)"
  with Cons have c: "\<not> is_ws c" by simp
  then have "\<not> (\<forall>x \<in> set (c # cs). is_ws x)" by auto
  then have "trim_end (c # cs) = c # trim_end cs" by (rule trim_end_Cons)
  with Cons c show ?thesis by simp
qed

lemma trim_starts: "trim s = [] \<or> \<not> is_ws (hd (trim s))"
  unfolding trim_def using trim_start_starts by (rule trim_end_keeps_start)

lemma trim_ends: "trim s = [] \<or> \<not> is_ws (last (trim s))"
  unfolding trim_def by (rule trim_end_ends)

lemma trim_trim: "trim (trim s) = trim s"
  using trim_starts [of s] trim_ends [of s] by (intro trim_id) blast

lemma trim_end_append_ws:
  assumes "\<forall>c \<in> set w. is_ws c"
  shows "trim_end (x @ w) = trim_end x"
proof -
  from assms have "\<And>c. c \<in> set (rev w) \<Longrightarrow> is_ws c" by simp
  then have "dropWhile is_ws (rev w @ rev x) = dropWhile is_ws (rev x)"
    by (rule dropWhile_append2)
  then show ?thesis by (simp add: trim_end_def)
qed

lemma fence_match_no_tick: "s = [] \<or> hd s \<noteq> 0x60 \<Longrightarrow> fence_match s = None"
  by (cases s) (auto simp: fence_match_def lit_def fence_def)

lemma extract_plain:
  "fence_match (trim t) = None \<Longrightarrow> extract_json_text t = trim t"
  by (simp add: extract_json_text_def)

lemma extract_literal:
  "s \<noteq> [] \<Longrightarrow> \<not> is_ws (hd s) \<Longrightarrow> \<not> is_ws (last s) \<Longrightarrow> hd s \<noteq> 0x60 \<Longrightarrow>
   extract_json_text s = s"
  by (simp add: extract_json_text_def trim_id fence_match_no_tick)

text \<open>The sample texts have no fence and no white space around them.\<close>

lemma extract_samples:
  "extract_json_text mango_text = mango_text"
  "extract_json_text unable_text = unable_text"
  "extract_json_text (ascii ''{not json'') = ascii ''{not json''"
  "extract_json_text (ascii ''{}'') = ascii ''{}''"
  by (rule extract_literal; simp add: mango_text_def unable_text_def ascii_Cons ascii_Nil is_ws_def)+

section \<open>The direct service: results\<close>

text \<open>Assigning a property changes that property and no other.\<close>

lemma map_of_update:
  "map_of (update k x kvs) k' = (if k' = k then Some x else map_of kvs k')"
  by (induction kvs) auto

lemma truthy_lookup_object: "truthy (lookup v k) \<Longrightarrow> \<exists>kvs. v = JObj kvs"
  by (cases v) simp_all

lemma lookup_assign:
  "truthy (lookup v k0) \<Longrightarrow>
   lookup (assign v k x) k' = (if k' = k then Some x else lookup v k')"
  by (cases v) (simp_all add: map_of_update)

lemma direct_resolves:
  "\<exists>result. identifyImage_direct P generateContent API_KEY imageFile = Inr result"
  by (cases "identifyImage_direct_try P generateContent API_KEY imageFile")
    (simp_all add: identifyImage_direct_def)

text \<open>With a key, a readable file and a model that answers, the result is decided by the answer.\<close>

lemma direct_reaches_parse:
  assumes "key \<noteq> []" and "fileToBase64 imageFile = Inr b"
    and "generateContent (direct_request (Some key) b imageFile) = Gen_text (Some t)"
  shows "identifyImage_direct P generateContent (Some key) imageFile =
     (case return_parsed P (extract_json_text t) of
        Inr parsedData \<Rightarrow> Inr parsedData
      | Inl error \<Rightarrow>
          Inr (error_object (JStr (ascii ''API Error''))
                 (JStr (lo_api_error_prefix @
                    message_or (ascii ''An unexpected error occurred during identification.'')
                      error))))"
  using assms by (simp add: identifyImage_direct_def identifyImage_direct_try_def)

lemma return_parsed_failure:
  "JSON_parse P s = Inl m \<Longrightarrow>
   return_parsed P s = Inl (Error_instance (ascii ''SyntaxError'') m)"
  by (simp add: return_parsed_def parse_def)

lemma return_parsed_null:
  "JSON_parse P s = Inr JNull \<Longrightarrow>
   return_parsed P s = Inl (Error_instance (ascii ''TypeError'') (read_of_null P (ascii ''error'')))"
  by (simp add: return_parsed_def parse_def read_prop_def)

lemma return_parsed_value:
  "JSON_parse P s = Inr v \<Longrightarrow> v \<noteq> JNull \<Longrightarrow>
   return_parsed P s =
     Inr (if truthy (lookup v (ascii ''error'')) \<and>
             lookup v (ascii ''message'') = Some (JStr canonical_fallback)
          then assign v (ascii ''message'') (JStr lo_unrecognizable) else v)"
  by (simp add: return_parsed_def parse_def read_prop_def)

text \<open>
  Claim C8. In the direct service, when the parsed answer has a truthy \<open>error\<close> field and
  its \<open>message\<close> is exactly the canonical English sentence, the result is the parsed
  answer with that message replaced by the Lao sentence and every other field as it was;
  with any other message the result is the parsed answer, unchanged.
\<close>

theorem C8_fallback_message_localized:
  assumes "key \<noteq> []" and "fileToBase64 imageFile = Inr b"
    and "generateContent (direct_request (Some key) b imageFile) = Gen_text (Some t)"
    and "JSON_parse P (extract_json_text t) = Inr v"
    and "truthy (lookup v (ascii ''error''))"
  shows "(lookup v (ascii ''message'') = Some (JStr canonical_fallback) \<longrightarrow>
       identifyImage_direct P generateContent (Some key) imageFile =
         Inr (assign v (ascii ''message'') (JStr lo_unrecognizable)) \<and>
       lookup (assign v (ascii ''message'') (JStr lo_unrecognizable)) (ascii ''message'') =
         Some (JStr lo_unrecognizable) \<and>
       (\<forall>k. k \<noteq> ascii ''message'' \<longrightarrow>
          lookup (assign v (ascii ''message'') (JStr lo_unrecognizable)) k = lookup v k)) \<and>
     (lookup v (ascii ''message'') \<noteq> Some (JStr canonical_fallback) \<longrightarrow>
       identifyImage_direct P generateContent (Some key) imageFile = Inr v)"
proof -
  from assms(5) have n: "v \<noteq> JNull" by auto
  have d: "identifyImage_direct P generateContent (Some key) imageFile =
     Inr (if lookup v (ascii ''message'') = Some (JStr canonical_fallback)
          then assign v (ascii ''message'') (JStr lo_unrecognizable) else v)"
    using assms by (simp add: direct_reaches_parse return_parsed_value [OF assms(4) n])
  show ?thesis using d assms(5) by (simp add: lookup_assign)
qed

text \<open>The answer of the instruction text itself: "Unable to identify" with the canonical message.\<close>

lemma sample_parse_unable: "JSON_parse sample unable_text = Inr unable"
  by (simp add: sample_def sample_parse_def sample_texts ascii_eq_iff)

lemma unable_fields:
  "lookup unable (ascii ''error'') = Some (JStr (ascii ''Unable to identify''))"
  "lookup unable (ascii ''message'') = Some (JStr canonical_fallback)"
  by (simp_all add: unable_def lookup_error_object)

lemma assign_unable:
  "assign unable (ascii ''message'') (JStr lo_unrecognizable) =
     error_object (JStr (ascii ''Unable to identify'')) (JStr lo_unrecognizable)"
  by (simp add: unable_def error_object_def ascii_eq_iff)

lemma direct_request_png:
  "answers t (direct_request (Some (ascii ''key'')) (ascii ''aGk='') png_file) = Gen_text (Some t)"
  by (simp add: answers_def)

theorem C8_witness:
  "ascii ''key'' \<noteq> [] \<and>
   fileToBase64 png_file = Inr (ascii ''aGk='') \<and>
   JSON_parse sample (extract_json_text unable_text) = Inr unable \<and>
   truthy (lookup unable (ascii ''error'')) \<and>
   lookup unable (ascii ''message'') = Some (JStr canonical_fallback) \<and>
   identifyImage_direct sample (answers unable_text) (Some (ascii ''key'')) png_file =
     Inr (error_object (JStr (ascii ''Unable to identify'')) (JStr lo_unrecognizable))"
proof -
  have k: "ascii ''key'' \<noteq> []" by (simp add: ascii_Nil_iff)
  have p: "JSON_parse sample (extract_json_text unable_text) = Inr unable"
    by (simp add: extract_samples sample_parse_unable)
  have t: "truthy (lookup unable (ascii ''error''))"
    by (simp add: unable_fields ascii_Nil_iff)
  from C8_fallback_message_localized [where generateContent = "answers unable_text"
      and P = sample, OF k fileToBase64_png direct_request_png p t]
  have "identifyImage_direct sample (answers unable_text) (Some (ascii ''key'')) png_file =
     Inr (assign unable (ascii ''message'') (JStr lo_unrecognizable))"
    by (simp add: unable_fields)
  with k p t show ?thesis by (simp add: fileToBase64_png unable_fields assign_unable)
qed

section \<open>The answer of the model, parsed or not\<close>

text \<open>Both services reach the parser with the extracted text, and answer by its outcome.\<close>

lemma lookup_assign_other: "k' \<noteq> k \<Longrightarrow> lookup (assign v k x) k' = lookup v k'"
  by (cases v) (simp_all add: map_of_update)

lemma handler_reaches_parse:
  assumes "httpMethod ev = ascii ''POST''" and "key \<noteq> []"
    and "request_body P ev = Inr parsed"
    and "generateContent (handler_request key parsed) = Gen_text (Some t)"
  shows "handler P (Some key) generateContent ev =
     (case respond_parsed P (extract_json_text t) of
        Inr r \<Rightarrow> Inr r
      | Inl error \<Rightarrow>
          Inr (reply P 500 (error_object (JStr (ascii ''AI Service Error''))
                 (JStr (message_or
                    (ascii ''An unexpected error occurred during identification with the AI model.'')
                    error)))))"
  using assms by (simp add: handler_def identify_try_def)

lemma respond_parsed_failure:
  "JSON_parse P s = Inl m \<Longrightarrow>
   respond_parsed P s = Inl (Error_instance (ascii ''SyntaxError'') m)"
  by (simp add: respond_parsed_def parse_def)

lemma respond_parsed_value:
  "JSON_parse P s = Inr v \<Longrightarrow> respond_parsed P s = Inr (reply P 200 v)"
  by (simp add: respond_parsed_def parse_def)

text \<open>The sample request and the sample answers.\<close>

lemma sample_parse_not_json:
  "JSON_parse sample (ascii ''{not json'') =
     Inl (ascii ''Unexpected token n in JSON at position 1'')"
  by (simp add: sample_def sample_parse_def sample_texts ascii_eq_iff ascii_Nil_iff)

lemma sample_parse_empty_object: "JSON_parse sample (ascii ''{}'') = Inr (JObj [])"
  by (simp add: sample_def sample_parse_def sample_texts ascii_eq_iff ascii_Nil_iff)

lemma png_body_fields:
  "png_body \<noteq> JNull"
  "lookup png_body (ascii ''imageData'') = Some (JStr (ascii ''aGk=''))"
  "lookup png_body (ascii ''mimeType'') = Some (JStr (ascii ''image/png''))"
  by (simp_all add: png_body_def ascii_eq_iff)

lemma request_body_png: "request_body sample (post png_body_text) = Inr png_body"
  by (simp add: request_body_def post_def parse_def sample_parse_png read_prop_def
      png_body_fields sample_texts_nonempty ascii_Nil_iff)

lemma post_method: "httpMethod (post b) = ascii ''POST''"
  by (simp add: post_def)

lemma answers_handler_request:
  "answers t (handler_request (ascii ''key'') png_body) = Gen_text (Some t)"
  by (simp add: answers_def)

lemma key_nonempty: "ascii ''key'' \<noteq> []"
  by (simp add: ascii_Nil_iff)

lemmas direct_answers =
  direct_reaches_parse [where generateContent = "answers t" and t = t,
    OF key_nonempty fileToBase64_png direct_request_png] for t

lemmas handler_answers =
  handler_reaches_parse [where generateContent = "answers t" and t = t and P = sample,
    OF post_method key_nonempty request_body_png answers_handler_request] for t

text \<open>
  Claim C1 as stated fails in the direct service: on the answer \<open>{not json\<close> the error
  code of the result is "API Error", not "AI Service Error".
\<close>

theorem C1_counterexample:
  "JSON_parse sample (extract_json_text (ascii ''{not json'')) =
     Inl (ascii ''Unexpected token n in JSON at position 1'') \<and>
   identifyImage_direct sample (answers (ascii ''{not json'')) (Some (ascii ''key'')) png_file =
     Inr (error_object (JStr (ascii ''API Error''))
       (JStr (lo_api_error_prefix @ ascii ''Unexpected token n in JSON at position 1''))) \<and>
   ascii ''API Error'' \<noteq> ascii ''AI Service Error''"
  by (simp add: direct_answers
      extract_samples sample_parse_not_json return_parsed_failure ascii_eq_iff)

text \<open>
  Claim C1, amended. When the extracted text does not parse, with description \<open>m\<close>:
  the handler answers 500 with error code "AI Service Error" and message \<open>m\<close>; the direct
  service resolves to the error result with error code "API Error" and the message \<open>m\<close>
  after a fixed Lao prefix, which is never empty. Neither throws.
\<close>

theorem C1_parse_failure:
  assumes "JSON_parse P (extract_json_text t) = Inl m"
  shows "(httpMethod ev = ascii ''POST'' \<and> key \<noteq> [] \<and> request_body P ev = Inr parsed \<and>
      generateContent (handler_request key parsed) = Gen_text (Some t) \<longrightarrow>
        handler P (Some key) generateContent ev =
          Inr (reply P 500 (error_object (JStr (ascii ''AI Service Error'')) (JStr m)))) \<and>
     (key' \<noteq> [] \<and> fileToBase64 imageFile = Inr b \<and>
      generateContent' (direct_request (Some key') b imageFile) = Gen_text (Some t) \<longrightarrow>
        identifyImage_direct P generateContent' (Some key') imageFile =
          Inr (error_object (JStr (ascii ''API Error'')) (JStr (lo_api_error_prefix @ m))) \<and>
        lo_api_error_prefix @ m \<noteq> [])"
  using assms
  by (simp add: handler_reaches_parse direct_reaches_parse respond_parsed_failure
      return_parsed_failure lo_api_error_prefix_def)

theorem C1_witness:
  "JSON_parse sample (extract_json_text (ascii ''{not json'')) =
     Inl (ascii ''Unexpected token n in JSON at position 1'') \<and>
   httpMethod (post png_body_text) = ascii ''POST'' \<and> ascii ''key'' \<noteq> [] \<and>
   request_body sample (post png_body_text) = Inr png_body \<and>
   handler sample (Some (ascii ''key'')) (answers (ascii ''{not json'')) (post png_body_text) =
     Inr (reply sample 500 (error_object (JStr (ascii ''AI Service Error''))
       (JStr (ascii ''Unexpected token n in JSON at position 1'')))) \<and>
   ascii ''Unexpected token n in JSON at position 1'' \<noteq> []"
proof -
  have p: "JSON_parse sample (extract_json_text (ascii ''{not json'')) =
     Inl (ascii ''Unexpected token n in JSON at position 1'')"
    by (simp add: extract_samples sample_parse_not_json)
  from C1_parse_failure [where generateContent = "answers (ascii ''{not json'')"
      and ev = "post png_body_text" and key = "ascii ''key''" and parsed = png_body, OF p]
  have "handler sample (Some (ascii ''key'')) (answers (ascii ''{not json'')) (post png_body_text) =
     Inr (reply sample 500 (error_object (JStr (ascii ''AI Service Error''))
       (JStr (ascii ''Unexpected token n in JSON at position 1''))))"
    by (simp add: post_method key_nonempty request_body_png answers_handler_request)
  with p show ?thesis
    by (simp add: post_method key_nonempty request_body_png ascii_Nil_iff)
qed

text \<open>
  Claim C3 as stated fails: on the answer \<open>{}\<close> the direct service returns the empty
  object, which has neither a name nor an error code, and the handler answers 200 with it.
\<close>

theorem C3_counterexample:
  "JSON_parse sample (extract_json_text (ascii ''{}'')) = Inr (JObj []) \<and>
   identifyImage_direct sample (answers (ascii ''{}'')) (Some (ascii ''key'')) png_file =
     Inr (JObj []) \<and>
   handler sample (Some (ascii ''key'')) (answers (ascii ''{}'')) (post png_body_text) =
     Inr (reply sample 200 (JObj [])) \<and>
   lookup (JObj []) (ascii ''name'') = None \<and>
   lookup (JObj []) (ascii ''error'') = None"
  by (simp add: direct_answers
      handler_answers
      extract_samples sample_parse_empty_object return_parsed_value respond_parsed_value)

text \<open>
  Claim C3, amended. Both services always return a result. When the extracted text
  parses to \<open>v\<close>, the handler answers 200 with \<open>v\<close> as it is. The direct service returns
  \<open>v\<close> itself, except that for a truthy \<open>error\<close> and the canonical message it returns
  \<open>v\<close> with the message replaced and every other field as it was; so a value without a
  truthy \<open>error\<close>, such as an object with neither name nor error code, is returned as
  it is, and the result has the \<open>name\<close> and \<open>error\<close> fields of \<open>v\<close>. For \<open>null\<close>, on which
  reading \<open>error\<close> throws, the direct service returns the error result "API Error".
  The shape of the parsed value is not checked anywhere.
\<close>

theorem C3_parsed_value_unchecked:
  assumes "JSON_parse P (extract_json_text t) = Inr v"
  shows "(\<exists>r. handler P API_KEY generateContent ev = Inr r) \<and>
     (\<exists>result. identifyImage_direct P generateContent' API_KEY' imageFile = Inr result) \<and>
     (httpMethod ev = ascii ''POST'' \<and> key \<noteq> [] \<and> request_body P ev = Inr parsed \<and>
      generateContent (handler_request key parsed) = Gen_text (Some t) \<longrightarrow>
        handler P (Some key) generateContent ev = Inr (reply P 200 v)) \<and>
     (key' \<noteq> [] \<and> fileToBase64 imageFile = Inr b \<and>
      generateContent' (direct_request (Some key') b imageFile) = Gen_text (Some t) \<longrightarrow>
        (v \<noteq> JNull \<longrightarrow>
           identifyImage_direct P generateContent' (Some key') imageFile =
             Inr (if truthy (lookup v (ascii ''error'')) \<and>
                     lookup v (ascii ''message'') = Some (JStr canonical_fallback)
                  then assign v (ascii ''message'') (JStr lo_unrecognizable) else v) \<and>
           (\<forall>k. k \<noteq> ascii ''message'' \<longrightarrow>
              lookup (assign v (ascii ''message'') (JStr lo_unrecognizable)) k = lookup v k) \<and>
           (\<not> truthy (lookup v (ascii ''error'')) \<longrightarrow>
              identifyImage_direct P generateContent' (Some key') imageFile = Inr v) \<and>
           (\<exists>result. identifyImage_direct P generateContent' (Some key') imageFile = Inr result \<and>
              lookup result (ascii ''name'') = lookup v (ascii ''name'') \<and>
              lookup result (ascii ''error'') = lookup v (ascii ''error''))) \<and>
        (v = JNull \<longrightarrow>
           identifyImage_direct P generateContent' (Some key') imageFile =
             Inr (error_object (JStr (ascii ''API Error''))
               (JStr (lo_api_error_prefix @ read_of_null P (ascii ''error''))))))"
proof (intro conjI impI allI)
  from handler_replies [of P API_KEY generateContent ev]
  obtain code w where "handler P API_KEY generateContent ev = Inr (reply P code w)" by blast
  then show "\<exists>r. handler P API_KEY generateContent ev = Inr r" by (intro exI)
next
  show "\<exists>result. identifyImage_direct P generateContent' API_KEY' imageFile = Inr result"
    by (rule direct_resolves)
next
  assume "httpMethod ev = ascii ''POST'' \<and> key \<noteq> [] \<and> request_body P ev = Inr parsed \<and>
      generateContent (handler_request key parsed) = Gen_text (Some t)"
  then show "handler P (Some key) generateContent ev = Inr (reply P 200 v)"
    using assms by (simp add: handler_reaches_parse respond_parsed_value)
next
  assume a: "key' \<noteq> [] \<and> fileToBase64 imageFile = Inr b \<and>
      generateContent' (direct_request (Some key') b imageFile) = Gen_text (Some t)"
    and nn: "v \<noteq> JNull"
  from a nn assms
  show "identifyImage_direct P generateContent' (Some key') imageFile =
             Inr (if truthy (lookup v (ascii ''error'')) \<and>
                     lookup v (ascii ''message'') = Some (JStr canonical_fallback)
                  then assign v (ascii ''message'') (JStr lo_unrecognizable) else v)"
    by (simp add: direct_reaches_parse return_parsed_value)
next
  fix k :: jstring
  assume "k \<noteq> ascii ''message''"
  then show "lookup (assign v (ascii ''message'') (JStr lo_unrecognizable)) k = lookup v k"
    by (rule lookup_assign_other)
next
  assume a: "key' \<noteq> [] \<and> fileToBase64 imageFile = Inr b \<and>
      generateContent' (direct_request (Some key') b imageFile) = Gen_text (Some t)"
    and nn: "v \<noteq> JNull" and "\<not> truthy (lookup v (ascii ''error''))"
  with assms show "identifyImage_direct P generateContent' (Some key') imageFile = Inr v"
    by (simp add: direct_reaches_parse return_parsed_value)
next
  assume a: "key' \<noteq> [] \<and> fileToBase64 imageFile = Inr b \<and>
      generateContent' (direct_request (Some key') b imageFile) = Gen_text (Some t)"
    and nn: "v \<noteq> JNull"
  let ?r = "if truthy (lookup v (ascii ''error'')) \<and>
             lookup v (ascii ''message'') = Some (JStr canonical_fallback)
          then assign v (ascii ''message'') (JStr lo_unrecognizable) else v"
  from a nn assms have d: "identifyImage_direct P generateContent' (Some key') imageFile = Inr ?r"
    by (simp add: direct_reaches_parse return_parsed_value)
  have n: "lookup ?r (ascii ''name'') = lookup v (ascii ''name'')"
    by (simp add: lookup_assign_other ascii_eq_iff)
  have e: "lookup ?r (ascii ''error'') = lookup v (ascii ''error'')"
    by (simp add: lookup_assign_other ascii_eq_iff)
  from d n e have "identifyImage_direct P generateContent' (Some key') imageFile = Inr ?r \<and>
           lookup ?r (ascii ''name'') = lookup v (ascii ''name'') \<and>
           lookup ?r (ascii ''error'') = lookup v (ascii ''error'')" by (intro conjI)
  then show "\<exists>result. identifyImage_direct P generateContent' (Some key') imageFile = Inr result \<and>
           lookup result (ascii ''name'') = lookup v (ascii ''name'') \<and>
           lookup result (ascii ''error'') = lookup v (ascii ''error'')"
    by (intro exI [where x = ?r])
next
  assume a: "key' \<noteq> [] \<and> fileToBase64 imageFile = Inr b \<and>
      generateContent' (direct_request (Some key') b imageFile) = Gen_text (Some t)"
    and "v = JNull"
  with assms show "identifyImage_direct P generateContent' (Some key') imageFile =
             Inr (error_object (JStr (ascii ''API Error''))
               (JStr (lo_api_error_prefix @ read_of_null P (ascii ''error''))))"
    by (simp add: direct_reaches_parse return_parsed_null)
qed

text \<open>The Mango answer passes through both services.\<close>

lemma mango_fields:
  "mango \<noteq> JNull"
  "lookup mango (ascii ''name'') = Some (JStr (ascii ''Mango''))"
  "lookup mango (ascii ''error'') = None"
  "lookup mango (ascii ''message'') = None"
  by (simp_all add: mango_def ascii_eq_iff)

theorem C3_witness:
  "JSON_parse sample (extract_json_text mango_text) = Inr mango \<and>
   httpMethod (post png_body_text) = ascii ''POST'' \<and> ascii ''key'' \<noteq> [] \<and>
   request_body sample (post png_body_text) = Inr png_body \<and>
   handler sample (Some (ascii ''key'')) (answers mango_text) (post png_body_text) =
     Inr (reply sample 200 mango) \<and>
   fileToBase64 png_file = Inr (ascii ''aGk='') \<and> mango \<noteq> JNull \<and>
   identifyImage_direct sample (answers mango_text) (Some (ascii ''key'')) png_file = Inr mango \<and>
   lookup mango (ascii ''name'') = Some (JStr (ascii ''Mango''))"
proof -
  have p: "JSON_parse sample (extract_json_text mango_text) = Inr mango"
    by (simp add: extract_samples sample_parse_mango)
  note t = C3_parsed_value_unchecked [where generateContent = "answers mango_text"
      and generateContent' = "answers mango_text" and imageFile = png_file
      and b = "ascii ''aGk=''" and key' = "ascii ''key''"
      and ev = "post png_body_text" and key = "ascii ''key''" and parsed = png_body, OF p]
  from t have h: "handler sample (Some (ascii ''key'')) (answers mango_text) (post png_body_text) =
     Inr (reply sample 200 mango)"
    by (simp add: post_method key_nonempty request_body_png answers_handler_request)
  from t [THEN conjunct2, THEN conjunct2, THEN conjunct2]
  have d: "identifyImage_direct sample (answers mango_text) (Some (ascii ''key'')) png_file = Inr mango"
    by (simp add: key_nonempty fileToBase64_png direct_request_png mango_fields)
  from p h d show ?thesis
    by (simp add: post_method key_nonempty request_body_png fileToBase64_png mango_fields)
qed

section \<open>Fenced answers\<close>

lemma ws_nl: "is_ws 0xA"
  by (simp add: is_ws_def)

lemma trim_append_ws:
  assumes "\<forall>c \<in> set w. is_ws c"
  shows "trim (x @ w) = trim x"
proof (cases "\<forall>c \<in> set x. is_ws c")
  case True
  with assms have a: "dropWhile is_ws (x @ w) = []" by simp
  from True have b: "dropWhile is_ws x = []" by simp
  show ?thesis unfolding trim_def trim_start_def a b ..
next
  case False
  then obtain c where "c \<in> set x" "\<not> is_ws c" by blast
  then have "dropWhile is_ws (x @ w) = dropWhile is_ws x @ w"
    by (rule dropWhile_append1)
  then show ?thesis
    by (simp add: trim_def trim_start_def trim_end_append_ws [OF assms])
qed

text \<open>The second group of the pattern on a fenced block is the trimmed body.\<close>

lemma fence_match_block:
  assumes "\<forall>c \<in> set tag. is_word c" and "nl = [] \<or> nl = [0xA]"
  shows "fence_match (spec_fenced tag inner nl) = Some (trim inner)"
proof -
  have w: "\<forall>c \<in> set nl. is_ws c" using assms(2) ws_nl by auto
  have "dropWhile is_word (tag @ 0xA # inner @ nl) = dropWhile is_word (0xA # inner @ nl)"
    using assms(1) by (intro dropWhile_append2) simp
  then have 1: "dropWhile is_word (tag @ 0xA # inner @ nl) = 0xA # inner @ nl"
    using not_word_nl by simp
  have 2: "dropWhile is_ws (0xA # inner @ nl) = trim_start (inner @ nl)"
    using ws_nl by (simp add: trim_start_def)
  have 3: "trim_end (dropWhile is_ws (dropWhile is_word (tag @ 0xA # inner @ nl))) =
      trim (inner @ nl)"
    unfolding 1 2 trim_def ..
  have 4: "spec_fenced tag inner nl = fence @ (tag @ 0xA # inner @ nl) @ fence"
    by (simp add: spec_fenced_def)
  have "fence_match (fence @ (tag @ 0xA # inner @ nl) @ fence) =
      Some (trim_end (dropWhile is_ws (dropWhile is_word (tag @ 0xA # inner @ nl))))"
    by (rule fence_match_fenced)
  then have "fence_match (spec_fenced tag inner nl) = Some (trim (inner @ nl))"
    unfolding 3 4 .
  then show ?thesis unfolding trim_append_ws [OF w] .
qed

lemma extract_block:
  assumes "trim t = spec_fenced tag inner nl"
    and "\<forall>c \<in> set tag. is_word c" and "nl = [] \<or> nl = [0xA]"
  shows "extract_json_text t = (if trim inner \<noteq> [] then trim inner else trim t)"
  using assms(1) fence_match_block [OF assms(2,3), of inner]
  by (simp add: extract_json_text_def trim_trim)

text \<open>A text that is not between two fences is only trimmed.\<close>

lemma extract_unfenced:
  "\<not> (\<exists>mid. trim t = fence @ mid @ fence) \<Longrightarrow> extract_json_text t = trim t"
  by (simp add: extract_plain fence_match_None)

text \<open>
  A fenced block with the tag \<open>json\<close> and an empty body. The second group is empty, the
  guard \<open>match && match[2]\<close> fails, and the whole text goes to the parser.
\<close>

lemma empty_fence_is_block: "empty_fence_text = spec_fenced (ascii ''json'') [] [0xA]"
  by (simp add: empty_fence_text_def spec_fenced_def)

lemma trim_empty_fence: "trim empty_fence_text = empty_fence_text"
  by (rule trim_id) (simp add: empty_fence_text_def fence_def is_ws_def)

lemma word_json: "\<forall>c \<in> set (ascii ''json''). is_word c"
  by (simp add: ascii_Cons ascii_Nil is_word_def)

lemma extract_empty_fence: "extract_json_text empty_fence_text = empty_fence_text"
proof -
  have "trim empty_fence_text = spec_fenced (ascii ''json'') [] [0xA]"
    unfolding trim_empty_fence by (rule empty_fence_is_block)
  from extract_block [OF this word_json]
  have "extract_json_text empty_fence_text =
      (if trim [] \<noteq> [] then trim [] else trim empty_fence_text)" by simp
  moreover have "trim [] = []" by (simp add: trim_def trim_start_def trim_end_def)
  ultimately show ?thesis by (simp add: trim_empty_fence)
qed

lemma sample_parse_Nil: "JSON_parse sample [] = Inl (ascii ''Unexpected end of JSON input'')"
  by (simp add: sample_def sample_parse_def sample_texts ascii_Nil_iff ascii_Cons)

lemma sample_parse_empty_fence:
  "JSON_parse sample empty_fence_text = Inl (ascii ''Unexpected token ` in JSON at position 0'')"
  by (simp add: sample_def sample_parse_def sample_texts ascii_Cons ascii_Nil fence_def)

text \<open>
  Claim C2 as stated fails on that block: the handler parses the text with its fences,
  and the failure it reports is not the one of parsing the (empty) body.
\<close>

theorem C2_counterexample:
  "trim empty_fence_text = spec_fenced (ascii ''json'') [] [0xA] \<and>
   extract_json_text empty_fence_text = empty_fence_text \<and>
   respond_parsed sample (extract_json_text empty_fence_text) =
     Inl (Error_instance (ascii ''SyntaxError'') (ascii ''Unexpected token ` in JSON at position 0'')) \<and>
   respond_parsed sample [] =
     Inl (Error_instance (ascii ''SyntaxError'') (ascii ''Unexpected end of JSON input'')) \<and>
   respond_parsed sample (extract_json_text empty_fence_text) \<noteq> respond_parsed sample []"
proof -
  have 1: "trim empty_fence_text = spec_fenced (ascii ''json'') [] [0xA]"
    unfolding trim_empty_fence by (rule empty_fence_is_block)
  have 2: "respond_parsed sample (extract_json_text empty_fence_text) =
     Inl (Error_instance (ascii ''SyntaxError'') (ascii ''Unexpected token ` in JSON at position 0''))"
    by (simp add: extract_empty_fence respond_parsed_failure sample_parse_empty_fence)
  have 3: "respond_parsed sample [] =
     Inl (Error_instance (ascii ''SyntaxError'') (ascii ''Unexpected end of JSON input''))"
    by (simp add: respond_parsed_failure sample_parse_Nil)
  have 4: "respond_parsed sample (extract_json_text empty_fence_text) \<noteq> respond_parsed sample []"
    unfolding 2 3 by (simp add: ascii_eq_iff)
  from 1 extract_empty_fence 2 3 4 show ?thesis by (intro conjI)
qed


text \<open>\<open>enclosed_by_fences\<close> says that the text is some middle between two fences.\<close>

lemma enclosed_by_fences_iff:
  "enclosed_by_fences s \<longleftrightarrow> (\<exists>mid. s = fence @ mid @ fence)"
proof
  assume e: "enclosed_by_fences s"
  let ?n = "length s"
  from e have n: "6 \<le> ?n" and a: "take 3 s = fence" and b: "drop (?n - 3) s = fence"
    by (simp_all add: enclosed_by_fences_def)
  define r where "r = drop 3 s"
  have "drop (?n - 6) r = drop (?n - 3) s" using n by (simp add: r_def)
  with b have c: "drop (?n - 6) r = fence" by simp
  have "take (?n - 6) r @ drop (?n - 6) r = r" by (rule append_take_drop_id)
  with c have d: "r = take (?n - 6) r @ fence" by simp
  have "take 3 s @ drop 3 s = s" by (rule append_take_drop_id)
  with a have "s = fence @ r" by (simp add: r_def)
  with d have "s = fence @ take (?n - 6) r @ fence" by simp
  then show "\<exists>mid. s = fence @ mid @ fence" ..
next
  assume "\<exists>mid. s = fence @ mid @ fence"
  then obtain mid where "s = fence @ mid @ fence" ..
  then show "enclosed_by_fences s" by (simp add: enclosed_by_fences_def fence_def)
qed

text \<open>
  Claim C2, amended. When the trimmed text is a fenced block (three backticks, a tag of
  word characters, a newline, a body, an optional newline, three backticks) whose body
  is not empty or white space only, the text handed to the parser is the body with the
  white space around it removed, so the result of both services is that of parsing the
  trimmed body. When the trimmed text is not between two fences, the text handed to the
  parser is the trimmed text.
\<close>

theorem C2_fence_stripped:
  "(trim t = spec_fenced tag inner nl \<and> list_all is_word tag \<and> (nl = [] \<or> nl = [0xA]) \<and>
    trim inner \<noteq> [] \<longrightarrow>
      extract_json_text t = trim inner \<and>
      respond_parsed P (extract_json_text t) = respond_parsed P (trim inner) \<and>
      return_parsed P (extract_json_text t) = return_parsed P (trim inner)) \<and>
   (\<not> enclosed_by_fences (trim t) \<longrightarrow>
      extract_json_text t = trim t \<and>
      respond_parsed P (extract_json_text t) = respond_parsed P (trim t) \<and>
      return_parsed P (extract_json_text t) = return_parsed P (trim t))"
proof (intro conjI impI)
  assume a: "trim t = spec_fenced tag inner nl \<and> list_all is_word tag \<and>
    (nl = [] \<or> nl = [0xA]) \<and> trim inner \<noteq> []"
  then have w: "\<forall>c \<in> set tag. is_word c" by (simp add: list_all_iff)
  from a have a1: "trim t = spec_fenced tag inner nl" and a3: "nl = [] \<or> nl = [0xA]"
    and a4: "trim inner \<noteq> []" by blast+
  from extract_block [OF a1 w a3] a4 show e: "extract_json_text t = trim inner" by simp
  show "respond_parsed P (extract_json_text t) = respond_parsed P (trim inner)"
    unfolding e ..
  show "return_parsed P (extract_json_text t) = return_parsed P (trim inner)"
    unfolding e ..
next
  assume "\<not> enclosed_by_fences (trim t)"
  then have "\<not> (\<exists>mid. trim t = fence @ mid @ fence)"
    using enclosed_by_fences_iff [of "trim t"] by blast
  then show e: "extract_json_text t = trim t" by (rule extract_unfenced)
  show "respond_parsed P (extract_json_text t) = respond_parsed P (trim t)"
    unfolding e ..
  show "return_parsed P (extract_json_text t) = return_parsed P (trim t)"
    unfolding e ..
qed

text \<open>The Mango answer, fenced and bare.\<close>

lemma trim_mango: "trim mango_text = mango_text"
  by (rule trim_id) (simp add: mango_text_def ascii_Cons ascii_Nil is_ws_def)

lemma mango_text_nonempty: "mango_text \<noteq> []"
  by (simp add: mango_text_def ascii_Nil_iff)

lemma trim_fenced_mango:
  "trim (spec_fenced (ascii ''json'') mango_text [0xA]) =
     spec_fenced (ascii ''json'') mango_text [0xA]"
  by (rule trim_id) (simp add: spec_fenced_def fence_def is_ws_def)

lemma mango_not_enclosed: "\<not> enclosed_by_fences (trim mango_text)"
  unfolding trim_mango
  by (simp add: enclosed_by_fences_def mango_text_def ascii_Cons ascii_Nil fence_def)

theorem C2_witness:
  "trim (spec_fenced (ascii ''json'') mango_text [0xA]) =
     spec_fenced (ascii ''json'') mango_text [0xA] \<and>
   list_all is_word (ascii ''json'') \<and> trim mango_text \<noteq> [] \<and>
   extract_json_text (spec_fenced (ascii ''json'') mango_text [0xA]) = mango_text \<and>
   respond_parsed sample (extract_json_text (spec_fenced (ascii ''json'') mango_text [0xA])) =
     Inr (reply sample 200 mango) \<and>
   \<not> enclosed_by_fences (trim mango_text) \<and>
   respond_parsed sample (extract_json_text mango_text) = Inr (reply sample 200 mango)"
proof -
  have w: "list_all is_word (ascii ''json'')"
    by (simp add: ascii_Cons ascii_Nil is_word_def)
  have n: "trim mango_text \<noteq> []" by (simp add: trim_mango mango_text_nonempty)
  have r: "respond_parsed sample mango_text = Inr (reply sample 200 mango)"
    by (simp add: respond_parsed_value sample_parse_mango)
  from C2_fence_stripped [of "spec_fenced (ascii ''json'') mango_text [0xA]"
      "ascii ''json''" mango_text "[0xA]" sample] trim_fenced_mango w n
  have 1: "extract_json_text (spec_fenced (ascii ''json'') mango_text [0xA]) = mango_text"
    by (simp add: trim_mango)
  from C2_fence_stripped [of mango_text _ _ _ sample] mango_not_enclosed
  have 2: "respond_parsed sample (extract_json_text mango_text) = respond_parsed sample mango_text"
    by (simp add: trim_mango)
  from trim_fenced_mango w n 1 mango_not_enclosed 2 r show ?thesis by simp
qed

text \<open>
  Trimming takes more than JSON white space: a no-break space before the body is removed
  by the extraction, while \<open>JSON.parse\<close> rejects it.
\<close>

lemma nbsp_body_trimmed:
  "extract_json_text (spec_fenced [] nbsp_body [0xA]) = ascii ''{}'' \<and>
   respond_parsed sample (extract_json_text (spec_fenced [] nbsp_body [0xA])) =
     Inr (reply sample 200 (JObj [])) \<and>
   respond_parsed sample nbsp_body =
     Inl (Error_instance (ascii ''SyntaxError'')
       (ascii ''Unexpected token '' @ [0xA0] @ ascii '' in JSON at position 0''))"
proof -
  have t: "trim (spec_fenced [] nbsp_body [0xA]) = spec_fenced [] nbsp_body [0xA]"
    by (rule trim_id) (simp add: spec_fenced_def fence_def is_ws_def)
  have b: "trim nbsp_body = ascii ''{}''"
    by (simp add: nbsp_body_def trim_def trim_start_def trim_end_def ascii_Cons ascii_Nil is_ws_def)
  from extract_block [OF t] b
  have e: "extract_json_text (spec_fenced [] nbsp_body [0xA]) = ascii ''{}''"
    by (simp add: ascii_Nil_iff)
  have p: "JSON_parse sample nbsp_body =
      Inl (ascii ''Unexpected token '' @ [0xA0] @ ascii '' in JSON at position 0'')"
    by (simp add: sample_def sample_parse_def sample_texts nbsp_body_def ascii_Cons ascii_Nil)
  show ?thesis
    by (simp add: e respond_parsed_value sample_parse_empty_object respond_parsed_failure p)
qed

end
